theory Spec2Isabelle
  imports Main "HOL-Library.Word"
begin

unbundle bit_operations_syntax

section \<open>Data model of the capture helper (Core/BlackmagicDeckLink.cpp)\<close>

text \<open>
  Modelled from the spec: the header \<open>Core/BlackmagicDeckLink.h\<close>, which declares the
  class \<open>CaptureHelper\<close>, the structures \<open>config_in\<close> and \<open>config_out\<close> and the
  enumeration of the capture states, is not among the sources. The states are the four of
  the spec (idle, capturing, aborting, finished); the fields are the ones the member
  functions read and write, with the types their uses require: timecodes are 32-bit BCD
  values (\<open>BMDTimecodeBCD\<close>) compared as unsigned numbers, with \<open>-1\<close> (all bits set)
  as the "unset" value; the frame position and the frame-count limit are integers, the
  limit with \<open>-1\<close> as "no limit", the position a counter that only grows.

  The capture helper drives a DeckLink card, its input stream and its deck control from
  callbacks. Pointers are modelled by whether they are non-null. Diagnostic output on
  \<open>cout\<close> is not modelled, so a result of the hardware layer that only selects a message
  is not a parameter; every call made on the card, the input, the deck control and the
  output glue is appended to \<open>calls\<close>.
\<close>

datatype status = idle | capturing | aborting | finished

datatype BMDDeckControlError =
    bmdDeckControlNoError
  | bmdDeckControlModeError
  | bmdDeckControlMissedInPointError
  | bmdDeckControlDeckTimeoutError
  | bmdDeckControlCommandFailedError
  | bmdDeckControlDeviceAlreadyOpenedError
  | bmdDeckControlFailedToOpenDeviceError
  | bmdDeckControlInLocalModeError
  | bmdDeckControlEndOfTapeError
  | bmdDeckControlUserAbortError
  | bmdDeckControlNoTapeInDeckError
  | bmdDeckControlNoVideoFromCardError
  | bmdDeckControlNoCommunicationError
  | bmdDeckControlUnknownError
  | bmdDeckControlReservedError "32 word"

datatype BMDDeckControlEvent =
    bmdDeckControlAbortedEvent
  | bmdDeckControlPrepareForExportEvent
  | bmdDeckControlPrepareForCaptureEvent
  | bmdDeckControlExportCompleteEvent
  | bmdDeckControlCaptureCompleteEvent
  | bmdDeckControlReservedEvent "32 word"

datatype BMDPixelFormat = bmdFormat8BitYUV | bmdFormat10BitYUV

datatype BMDAudioSampleType = bmdAudioSampleType16bitInteger | bmdAudioSampleType32bitInteger

text \<open>
  Modelled from the spec: the DeckLink SDK headers are not among the sources. The status
  word of the deck control has one bit for "deck connected" and the display modes include
  the NTSC mode; the values are the ones of the SDK, and no property below depends on them.
\<close>

definition bmdDeckControlStatusDeckConnected :: "32 word" where
  "bmdDeckControlStatusDeckConnected = 1"

definition bmdModeNTSC :: "32 word" where
  "bmdModeNTSC = 0x6E747363"

record config_in =
  FrameCount :: int
  TC_in :: "32 word"
  TC_out :: "32 word"
  VideoBitDepth :: int
  AudioBitDepth :: int
  ChannelsCount :: int
  DropFrame :: bool
  VideoInputConnection :: int
  TimeCodeIsAvailable_Callback :: bool

record config_out =
  Status :: status
  TC_current :: "32 word"
  VideoInputConnections :: int

text \<open>Every call the helper makes on a collaborator, in the order it is made.\<close>

datatype call =
    OutputFrame nat int int int
  | CloseOutput
  | TimeCodeIsAvailable
  | Card_AddRef
  | Card_Release
  | Configuration_SetInt int
  | Input_SetCallback bool
  | Input_EnableVideoInput BMDPixelFormat
  | Input_EnableAudioInput BMDAudioSampleType int
  | Input_StartStreams
  | Input_StopStreams
  | Input_DisableVideoInput
  | Input_Release
  | Control_SetCallback bool
  | Control_Open int int bool
  | Control_Close bool
  | Control_Release
  | Control_Abort
  | Control_Stop
  | Control_Play
  | Control_StartCapture bool "32 word" "32 word"
  | Control_GetTimecode

record CaptureHelper =
  m_card :: bool
  m_input :: bool
  m_control :: bool
  m_width :: int
  m_height :: int
  m_timeScale :: int
  m_frameDuration :: int
  m_FramePos :: int
  Glue :: bool
  Config_In :: config_in
  Config_Out :: config_out
  WantTimeCode :: bool
  calls :: "call list"

text \<open>A dereference of a null pointer ends the run of a member function.\<close>

datatype error = NullPointer

subsection \<open>What the hardware layer answers\<close>

record display_mode =
  DisplayMode :: "32 word"
  ModeWidth :: int
  ModeHeight :: int
  ModeFrameDuration :: int
  ModeTimeScale :: int

record card_replies =
  getDeckLinkCard :: bool
  QueryInterface_Attributes :: bool
  GetInt_VideoInputConnections :: "64 word option"
  QueryInterface_Configuration :: bool

record input_replies =
  QueryInterface_Input :: bool
  GetDisplayModeIterator :: "display_mode list option"
  EnableVideoInput :: bool
  EnableAudioInput :: bool
  StartStreams :: bool

record control_replies =
  control_input :: input_replies
  QueryInterface_DeckControl :: bool
  Open :: bool

datatype timecode_reply = GetTimecode_failed BMDDeckControlError | GetTimecode_ok "32 word"

record start_replies =
  first_input :: input_replies
  second_input :: input_replies
  start_control :: control_replies
  StartCapture :: bool

record video_frame =
  GetTimecode :: "32 word option"
  VideoBytes :: nat
  RowBytes :: int
  FrameHeight :: int

record audio_packet =
  AudioBytes :: nat
  SampleFrameCount :: int

subsection \<open>Small helpers for the state\<close>

definition call :: "call \<Rightarrow> CaptureHelper \<Rightarrow> CaptureHelper" where
  "call c s = s\<lparr>calls := calls s @ [c]\<rparr>"

definition set_Status :: "status \<Rightarrow> CaptureHelper \<Rightarrow> CaptureHelper" where
  "set_Status st s = s\<lparr>Config_Out := (Config_Out s)\<lparr>Status := st\<rparr>\<rparr>"

definition set_TC_current :: "32 word \<Rightarrow> CaptureHelper \<Rightarrow> CaptureHelper" where
  "set_TC_current tc s = s\<lparr>Config_Out := (Config_Out s)\<lparr>TC_current := tc\<rparr>\<rparr>"

section \<open>Member functions\<close>

subsection \<open>Card\<close>

text \<open>\<open>CaptureHelper::setupCard\<close>; the result of \<open>getDeckLinkCard(CardPos)\<close> is a reply.
  The 64-bit value that \<open>GetInt\<close> gives is stored through the cast \<open>(int)Temp\<close>.\<close>

definition setupCard :: "card_replies \<Rightarrow> CaptureHelper \<Rightarrow> bool \<times> CaptureHelper" where
  "setupCard r s =
    (if m_card s then (True, s)
     else if \<not> getDeckLinkCard r then (False, s\<lparr>m_card := False\<rparr>)
     else
       let s1 = call Card_AddRef (s\<lparr>m_card := True\<rparr>);
           s2 = (if \<not> QueryInterface_Attributes r then s1
                 else case GetInt_VideoInputConnections r of
                        None \<Rightarrow> s1
                      | Some Temp \<Rightarrow>
                          s1\<lparr>Config_Out := (Config_Out s1)
                               \<lparr>VideoInputConnections := sint (ucast Temp :: 32 word)\<rparr>\<rparr>);
           s3 = (if \<not> QueryInterface_Configuration r then s2
                 else if VideoInputConnection (Config_In s2) \<noteq> -1
                   then call (Configuration_SetInt (VideoInputConnection (Config_In s2))) s2
                   else s2)
       in (True, s3))"

text \<open>\<open>CaptureHelper::cleanupCard\<close>\<close>

definition cleanupCard :: "CaptureHelper \<Rightarrow> bool \<times> CaptureHelper" where
  "cleanupCard s =
    (if \<not> m_card s then (True, s)
     else (True, (call Card_Release s)\<lparr>m_card := False\<rparr>))"

text \<open>The constructor: the member initialisers, then \<open>setupCard\<close>.\<close>

definition CaptureHelper_new :: "card_replies \<Rightarrow> config_in \<Rightarrow> config_out \<Rightarrow> CaptureHelper" where
  "CaptureHelper_new r cin cout =
    snd (setupCard r
      \<lparr>m_card = False, m_input = False, m_control = False, m_width = -1, m_height = -1,
       m_timeScale = 0, m_frameDuration = 0, m_FramePos = 0, Glue = False,
       Config_In = cin, Config_Out = cout, WantTimeCode = False, calls = []\<rparr>)"

subsection \<open>Input\<close>

fun find_ntsc :: "display_mode list \<Rightarrow> display_mode option" where
  "find_ntsc [] = None"
| "find_ntsc (m # ms) = (if DisplayMode m = bmdModeNTSC then Some m else find_ntsc ms)"

text \<open>\<open>CaptureHelper::setupInput\<close>\<close>

definition setupInput :: "input_replies \<Rightarrow> CaptureHelper \<Rightarrow> error + bool \<times> CaptureHelper" where
  "setupInput r s =
    (if m_input s then Inr (True, s)
     else
       let s1 = s\<lparr>m_width := -1\<rparr> in
       if \<not> m_card s1 then Inl NullPointer
       else if \<not> QueryInterface_Input r then Inr (False, s1)
       else
         let s2 = s1\<lparr>m_input := True\<rparr> in
         case GetDisplayModeIterator r of
           None \<Rightarrow> Inr (False, s2)
         | Some modes \<Rightarrow>
             let s3 = (case find_ntsc modes of
                         None \<Rightarrow> s2
                       | Some m \<Rightarrow> s2\<lparr>m_width := ModeWidth m, m_height := ModeHeight m,
                                      m_frameDuration := ModeFrameDuration m,
                                      m_timeScale := ModeTimeScale m\<rparr>)
             in
             if m_width s3 = -1 then Inr (False, s3)
             else
               let s4 = call (Input_SetCallback True) s3;
                   PixelFormat = (if VideoBitDepth (Config_In s4) = 10 then bmdFormat10BitYUV
                                  else bmdFormat8BitYUV);
                   s5 = call (Input_EnableVideoInput PixelFormat) s4
               in
               if \<not> EnableVideoInput r then Inr (False, s5)
               else
                 let AudioSampleType =
                       (if AudioBitDepth (Config_In s5) = 24 \<or> AudioBitDepth (Config_In s5) = 32
                        then bmdAudioSampleType32bitInteger
                        else bmdAudioSampleType16bitInteger);
                     s6 = call (Input_EnableAudioInput AudioSampleType (ChannelsCount (Config_In s5))) s5
                 in
                 if \<not> EnableAudioInput r then Inr (False, s6)
                 else
                   let s7 = call Input_StartStreams s6 in
                   if \<not> StartStreams r then Inr (False, s7)
                   else Inr (True, s7))"

text \<open>\<open>CaptureHelper::cleanupInput\<close>\<close>

definition cleanupInput :: "CaptureHelper \<Rightarrow> bool \<times> CaptureHelper" where
  "cleanupInput s =
    (if \<not> m_input s then (True, s)
     else
       (True, (call Input_Release (call (Input_SetCallback False)
                (call Input_DisableVideoInput (call Input_StopStreams s))))\<lparr>m_input := False\<rparr>))"

subsection \<open>Control\<close>

text \<open>\<open>CaptureHelper::setupControl\<close>\<close>

definition setupControl :: "control_replies \<Rightarrow> CaptureHelper \<Rightarrow> error + bool \<times> CaptureHelper" where
  "setupControl r s =
    (case setupInput (control_input r) s of
       Inl e \<Rightarrow> Inl e
     | Inr (ok, s1) \<Rightarrow>
         if \<not> ok then Inr (False, s1)
         else if m_control s1 then Inr (True, s1)
         else if \<not> m_card s1 then Inl NullPointer
         else if \<not> QueryInterface_DeckControl r then Inr (False, s1)
         else
           let s2 = call (Control_SetCallback True) (s1\<lparr>m_control := True\<rparr>);
               s3 = call (Control_Open (m_timeScale s2) (m_frameDuration s2)
                                       (DropFrame (Config_In s2))) s2
           in
           if \<not> Open r then Inr (False, s3)
           else Inr (True, s3))"

text \<open>\<open>CaptureHelper::cleanupControl\<close>\<close>

definition cleanupControl :: "CaptureHelper \<Rightarrow> bool \<times> CaptureHelper" where
  "cleanupControl s =
    (if \<not> m_control s then (True, s)
     else if Status (Config_Out s) = capturing \<and> TC_in (Config_In s) \<noteq> -1
       then (False, call Control_Abort (set_Status aborting s))
     else
       (True, (call Control_Release (call (Control_SetCallback False)
                (call (Control_Close False) s)))\<lparr>m_control := False\<rparr>))"

text \<open>\<open>CaptureHelper::readTimeCode\<close>\<close>

definition readTimeCode :: "timecode_reply \<Rightarrow> CaptureHelper \<Rightarrow> error + CaptureHelper" where
  "readTimeCode r s =
    (if \<not> m_control s then Inl NullPointer
     else
       let s1 = call Control_GetTimecode s in
       case r of
         GetTimecode_failed bmdDeckControlError \<Rightarrow>
           let s2 = (if bmdDeckControlError = bmdDeckControlNoCommunicationError
                     then s1\<lparr>WantTimeCode := True\<rparr> else s1)
           in Inr (set_TC_current (-1) s2)
       | GetTimecode_ok bcd \<Rightarrow>
           let s2 = set_TC_current bcd s1 in
           if TimeCodeIsAvailable_Callback (Config_In s2)
           then Inr (call TimeCodeIsAvailable s2)
           else Inr s2)"

text \<open>\<open>CaptureHelper::getTimeCode\<close>\<close>

definition getTimeCode :: "control_replies \<Rightarrow> timecode_reply \<Rightarrow> CaptureHelper \<Rightarrow> error + CaptureHelper" where
  "getTimeCode c r s =
    (case setupControl c s of
       Inl e \<Rightarrow> Inl e
     | Inr (ok, s1) \<Rightarrow> if \<not> ok then Inr s1 else readTimeCode r s1)"

subsection \<open>Capture\<close>

text \<open>\<open>CaptureHelper::finishCapture\<close>\<close>

definition finishCapture :: "CaptureHelper \<Rightarrow> bool \<times> CaptureHelper" where
  "finishCapture s =
    (if Status (Config_Out s) = finished then (False, s)
     else
       let s1 = (if Glue s then call CloseOutput s else s)
       in (True, set_Status finished s1))"

text \<open>\<open>CaptureHelper::startCapture\<close>\<close>

definition startCapture :: "start_replies \<Rightarrow> CaptureHelper \<Rightarrow> error + CaptureHelper" where
  "startCapture r s =
    (let s0 = snd (cleanupInput s) in
     case setupInput (first_input r) s0 of
       Inl e \<Rightarrow> Inl e
     | Inr (ok1, s1) \<Rightarrow>
        (case setupInput (second_input r) s1 of
           Inl e \<Rightarrow> Inl e
         | Inr (ok2, s2) \<Rightarrow>
             if \<not> ok2 then Inr s2
             else if TC_in (Config_In s2) = -1 then
               (if \<not> m_control s2 then Inl NullPointer
                else Inr (set_Status capturing (call Control_Play s2)))
             else
               (case setupControl (start_control r) s2 of
                  Inl e \<Rightarrow> Inl e
                | Inr (ok3, s3) \<Rightarrow>
                    if \<not> ok3 then Inr s3
                    else
                      let s4 = call (Control_StartCapture True (TC_in (Config_In s3))
                                       (TC_out (Config_In s3))) s3
                      in
                      if \<not> StartCapture r then Inr (set_Status finished s4)
                      else Inr (set_Status capturing s4))))"

text \<open>\<open>CaptureHelper::stop\<close>\<close>

definition stop :: "CaptureHelper \<Rightarrow> error + CaptureHelper" where
  "stop s =
    (if TC_in (Config_In s) \<noteq> -1 then
       (if \<not> m_control s then Inl NullPointer
        else Inr (set_Status aborting (call Control_Abort s)))
     else
       (if \<not> m_control s then Inl NullPointer
        else Inr (snd (finishCapture (call Control_Stop s)))))"

subsection \<open>Callbacks\<close>

text \<open>\<open>CaptureHelper::TimecodeUpdate\<close> and \<open>CaptureHelper::VTRControlStateChanged\<close>\<close>

definition TimecodeUpdate :: "32 word \<Rightarrow> CaptureHelper \<Rightarrow> CaptureHelper" where
  "TimecodeUpdate currentTimecode s = s"

definition VTRControlStateChanged :: "CaptureHelper \<Rightarrow> CaptureHelper" where
  "VTRControlStateChanged s = s"

text \<open>\<open>CaptureHelper::DeckControlEventReceived\<close>\<close>

definition DeckControlEventReceived :: "BMDDeckControlEvent \<Rightarrow> CaptureHelper \<Rightarrow> CaptureHelper" where
  "DeckControlEventReceived bmdDeckControlEvent s =
    (case bmdDeckControlEvent of
       bmdDeckControlPrepareForCaptureEvent \<Rightarrow> s
     | bmdDeckControlCaptureCompleteEvent \<Rightarrow> snd (finishCapture s)
     | bmdDeckControlAbortedEvent \<Rightarrow> snd (finishCapture s)
     | _ \<Rightarrow> snd (finishCapture s))"

text \<open>\<open>CaptureHelper::DeckControlStatusChanged\<close>; the reply is used only when the
  timecode is read again.\<close>

definition DeckControlStatusChanged ::
  "32 word \<Rightarrow> 32 word \<Rightarrow> timecode_reply \<Rightarrow> CaptureHelper \<Rightarrow> error + CaptureHelper" where
  "DeckControlStatusChanged bmdDeckControlStatusFlags mask_arg r s =
    (if (mask_arg AND bmdDeckControlStatusDeckConnected) \<noteq> 0
        \<and> (bmdDeckControlStatusFlags AND bmdDeckControlStatusDeckConnected) \<noteq> 0
     then
       (if WantTimeCode s then
          (case readTimeCode r s of
             Inl e \<Rightarrow> Inl e
           | Inr s1 \<Rightarrow> Inr (s1\<lparr>WantTimeCode := False\<rparr>))
        else Inr s)
     else Inr s)"

text \<open>
  \<open>CaptureHelper::VideoInputFrameArrived\<close>, in the three parts of its body: the decision
  \<open>ShouldDecode\<close> together with the update of the current timecode (the block from the
  declaration of \<open>ShouldDecode\<close> to the end of the \<open>if (timecode)\<close> statement), the block
  under \<open>if (ShouldDecode)\<close>, and the function itself.
\<close>

definition ShouldDecode :: "video_frame \<Rightarrow> CaptureHelper \<Rightarrow> bool" where
  "ShouldDecode f s =
    (let d0 = \<not> (FrameCount (Config_In s) \<noteq> -1 \<and> m_FramePos s \<ge> FrameCount (Config_In s)) in
     case GetTimecode f of
       Some tcBCD \<Rightarrow>
         if TC_in (Config_In s) \<noteq> -1
            \<and> ((TC_current (Config_Out s) \<noteq> -1 \<and> tcBCD = TC_current (Config_Out s))
               \<or> tcBCD < TC_in (Config_In s)
               \<or> tcBCD \<ge> TC_out (Config_In s))
         then False else d0
     | None \<Rightarrow> if TC_in (Config_In s) \<noteq> -1 then False else d0)"

definition observe_timecode :: "video_frame \<Rightarrow> CaptureHelper \<Rightarrow> CaptureHelper" where
  "observe_timecode f s =
    (case GetTimecode f of Some tcBCD \<Rightarrow> set_TC_current tcBCD s | None \<Rightarrow> s)"

definition decode_frame ::
  "video_frame \<Rightarrow> audio_packet option \<Rightarrow> CaptureHelper \<Rightarrow> error + CaptureHelper" where
  "decode_frame f arrivedAudioFrame s =
    (case arrivedAudioFrame of
       None \<Rightarrow> Inl NullPointer
     | Some a \<Rightarrow>
         let s1 = (if Glue s
                   then call (OutputFrame (AudioBytes a) (SampleFrameCount a * 2 * 16 div 8) 1 (m_FramePos s))
                         (call (OutputFrame (VideoBytes f) (RowBytes f * FrameHeight f) 0 (m_FramePos s)) s)
                   else s);
             s2 = s1\<lparr>m_FramePos := m_FramePos s1 + 1\<rparr>
         in
         if FrameCount (Config_In s2) \<noteq> -1 \<and> m_FramePos s2 \<ge> FrameCount (Config_In s2)
         then stop s2
         else Inr s2)"

definition VideoInputFrameArrived ::
  "video_frame option \<Rightarrow> audio_packet option \<Rightarrow> CaptureHelper \<Rightarrow> error + CaptureHelper" where
  "VideoInputFrameArrived arrivedVideoFrame arrivedAudioFrame s =
    (if Status (Config_Out s) \<noteq> capturing then Inr s
     else case arrivedVideoFrame of
            None \<Rightarrow> Inl NullPointer
          | Some f \<Rightarrow>
              if ShouldDecode f s
              then decode_frame f arrivedAudioFrame (observe_timecode f s)
              else Inr (observe_timecode f s))"

text \<open>\<open>CaptureHelper::~CaptureHelper\<close>\<close>

definition CaptureHelper_delete :: "CaptureHelper \<Rightarrow> CaptureHelper" where
  "CaptureHelper_delete s =
    snd (cleanupCard (snd (cleanupInput (snd (cleanupControl (snd (finishCapture s)))))))"

section \<open>Runs and observations\<close>

text \<open>
  A run of the helper: the member functions and callbacks in the order they are invoked,
  each with the replies the hardware layer gives during that invocation. A run ends at the
  first null-pointer dereference.
\<close>

datatype event =
    Ev_setupCard card_replies
  | Ev_cleanupCard
  | Ev_setupInput input_replies
  | Ev_cleanupInput
  | Ev_setupControl control_replies
  | Ev_cleanupControl
  | Ev_getTimeCode control_replies timecode_reply
  | Ev_startCapture start_replies
  | Ev_finishCapture
  | Ev_stop
  | Ev_TimecodeUpdate "32 word"
  | Ev_DeckControlEventReceived BMDDeckControlEvent
  | Ev_VTRControlStateChanged
  | Ev_DeckControlStatusChanged "32 word" "32 word" timecode_reply
  | Ev_VideoInputFrameArrived "video_frame option" "audio_packet option"

definition drop_result :: "error + bool \<times> CaptureHelper \<Rightarrow> error + CaptureHelper" where
  "drop_result x = (case x of Inl e \<Rightarrow> Inl e | Inr (b, s) \<Rightarrow> Inr s)"

fun step :: "event \<Rightarrow> CaptureHelper \<Rightarrow> error + CaptureHelper" where
  "step (Ev_setupCard r) s = Inr (snd (setupCard r s))"
| "step Ev_cleanupCard s = Inr (snd (cleanupCard s))"
| "step (Ev_setupInput r) s = drop_result (setupInput r s)"
| "step Ev_cleanupInput s = Inr (snd (cleanupInput s))"
| "step (Ev_setupControl r) s = drop_result (setupControl r s)"
| "step Ev_cleanupControl s = Inr (snd (cleanupControl s))"
| "step (Ev_getTimeCode c r) s = getTimeCode c r s"
| "step (Ev_startCapture r) s = startCapture r s"
| "step Ev_finishCapture s = Inr (snd (finishCapture s))"
| "step Ev_stop s = stop s"
| "step (Ev_TimecodeUpdate tc) s = Inr (TimecodeUpdate tc s)"
| "step (Ev_DeckControlEventReceived ev) s = Inr (DeckControlEventReceived ev s)"
| "step Ev_VTRControlStateChanged s = Inr (VTRControlStateChanged s)"
| "step (Ev_DeckControlStatusChanged fl m r) s = DeckControlStatusChanged fl m r s"
| "step (Ev_VideoInputFrameArrived v a) s = VideoInputFrameArrived v a s"

fun run :: "event list \<Rightarrow> CaptureHelper \<Rightarrow> error + CaptureHelper" where
  "run [] s = Inr s"
| "run (ev # evs) s = (case step ev s of Inl e \<Rightarrow> Inl e | Inr s' \<Rightarrow> run evs s')"

text \<open>The calls made between a state and a later one.\<close>

definition new_calls :: "CaptureHelper \<Rightarrow> CaptureHelper \<Rightarrow> call list" where
  "new_calls s s' = drop (length (calls s)) (calls s')"

text \<open>The two calls that hand a frame to the output glue at a position.\<close>

definition video_output :: "video_frame \<Rightarrow> int \<Rightarrow> call" where
  "video_output f pos = OutputFrame (VideoBytes f) (RowBytes f * FrameHeight f) 0 pos"

definition audio_output :: "audio_packet \<Rightarrow> int \<Rightarrow> call" where
  "audio_output a pos = OutputFrame (AudioBytes a) (SampleFrameCount a * 2 * 16 div 8) 1 pos"

text \<open>A frame is forwarded by its notification when the notification returns and its video
  buffer has reached the output glue, tagged with the position the counter had on arrival.
  A notification that ends in a null-pointer dereference does not count, also when the
  dereference is the one in \<open>stop\<close>, after the two output calls.\<close>

definition forwarded :: "video_frame \<Rightarrow> audio_packet option \<Rightarrow> CaptureHelper \<Rightarrow> bool" where
  "forwarded f a s =
    (case VideoInputFrameArrived (Some f) a s of
       Inl e \<Rightarrow> False
     | Inr s' \<Rightarrow> video_output f (m_FramePos s) \<in> set (new_calls s s'))"

text \<open>A frame is discarded when its notification returns with no call made and the frame
  position as it was.\<close>

definition discarded :: "video_frame \<Rightarrow> audio_packet option \<Rightarrow> CaptureHelper \<Rightarrow> bool" where
  "discarded f a s =
    (case VideoInputFrameArrived (Some f) a s of
       Inl e \<Rightarrow> False
     | Inr s' \<Rightarrow> calls s' = calls s \<and> m_FramePos s' = m_FramePos s)"

text \<open>The positions of the video buffers handed to the output glue, in order.\<close>

fun video_positions :: "call list \<Rightarrow> int list" where
  "video_positions [] = []"
| "video_positions (OutputFrame b n k p # cs) =
     (if k = 0 then p # video_positions cs else video_positions cs)"
| "video_positions (c # cs) = video_positions cs"

text \<open>A status event reports the deck as connected when the bit is set in both words.\<close>

definition reports_connected :: "32 word \<Rightarrow> 32 word \<Rightarrow> bool" where
  "reports_connected flags mask_arg =
    ((mask_arg AND bmdDeckControlStatusDeckConnected) \<noteq> 0
     \<and> (flags AND bmdDeckControlStatusDeckConnected) \<noteq> 0)"

text \<open>The commands that ask the deck to stop or abort, among a list of calls; a frame
  triggers a stop request when its notification makes at least one of them.\<close>

definition stop_requests :: "call list \<Rightarrow> nat" where
  "stop_requests cs = count_list cs Control_Stop + count_list cs Control_Abort"

definition triggers_stop :: "video_frame option \<Rightarrow> audio_packet option \<Rightarrow> CaptureHelper \<Rightarrow> bool" where
  "triggers_stop v a s =
    (case VideoInputFrameArrived v a s of
       Inl e \<Rightarrow> False
     | Inr s' \<Rightarrow> 0 < stop_requests (new_calls s s'))"

text \<open>The replies with which opening the input stream fails at one of its steps, and the
  replies with which the deck control cannot be obtained or opened.\<close>

definition input_open_fails :: "input_replies \<Rightarrow> bool" where
  "input_open_fails r \<longleftrightarrow>
     \<not> QueryInterface_Input r
     \<or> (case GetDisplayModeIterator r of
          None \<Rightarrow> True
        | Some modes \<Rightarrow> (case find_ntsc modes of None \<Rightarrow> True | Some m \<Rightarrow> ModeWidth m = -1))
     \<or> \<not> EnableVideoInput r \<or> \<not> EnableAudioInput r \<or> \<not> StartStreams r"

definition deck_open_fails :: "control_replies \<Rightarrow> bool" where
  "deck_open_fails r \<longleftrightarrow> \<not> QueryInterface_DeckControl r \<or> \<not> Open r"

text \<open>The status a member function leaves, when it returns.\<close>

definition status_after :: "error + CaptureHelper \<Rightarrow> status option" where
  "status_after x = (case x of Inl e \<Rightarrow> None | Inr s \<Rightarrow> Some (Status (Config_Out s)))"

text \<open>
  Two relations used for the frame positions. A step is quiet when it keeps the frame
  position and the attachment of the glue, hands no video buffer to the glue and does not
  bring the status back to \<open>idle\<close>. The positions of a state are in order when the
  video buffers handed over so far carry the positions \<open>0, 1, \<dots>\<close> up to the frame
  position (none when no glue is attached) and an \<open>idle\<close> helper is at position 0.
\<close>

definition quiet :: "CaptureHelper \<Rightarrow> CaptureHelper \<Rightarrow> bool" where
  "quiet s s' \<longleftrightarrow>
     m_FramePos s' = m_FramePos s \<and> Glue s' = Glue s
     \<and> video_positions (calls s') = video_positions (calls s)
     \<and> (Status (Config_Out s') = idle \<longrightarrow> Status (Config_Out s) = idle)"

definition positions_ok :: "CaptureHelper \<Rightarrow> bool" where
  "positions_ok s \<longleftrightarrow>
     0 \<le> m_FramePos s
     \<and> video_positions (calls s) = (if Glue s then [0..m_FramePos s - 1] else [])
     \<and> (Status (Config_Out s) = idle \<longrightarrow> m_FramePos s = 0)"

section \<open>Example inputs\<close>

definition example_config :: "int \<Rightarrow> 32 word \<Rightarrow> 32 word \<Rightarrow> config_in" where
  "example_config n tin tout =
    \<lparr>FrameCount = n, TC_in = tin, TC_out = tout, VideoBitDepth = 8, AudioBitDepth = 16,
     ChannelsCount = 2, DropFrame = False, VideoInputConnection = -1,
     TimeCodeIsAvailable_Callback = False\<rparr>"

text \<open>A helper with card, input and deck control set up and the output glue attached.\<close>

definition example_helper :: "config_in \<Rightarrow> status \<Rightarrow> CaptureHelper" where
  "example_helper cin st =
    \<lparr>m_card = True, m_input = True, m_control = True, m_width = 720, m_height = 486,
     m_timeScale = 30000, m_frameDuration = 1001, m_FramePos = 0, Glue = True,
     Config_In = cin,
     Config_Out = \<lparr>Status = st, TC_current = -1, VideoInputConnections = 0\<rparr>,
     WantTimeCode = False, calls = []\<rparr>"

definition example_frame :: "nat \<Rightarrow> 32 word option \<Rightarrow> video_frame" where
  "example_frame b tc = \<lparr>GetTimecode = tc, VideoBytes = b, RowBytes = 1440, FrameHeight = 486\<rparr>"

definition example_audio :: "nat \<Rightarrow> audio_packet" where
  "example_audio b = \<lparr>AudioBytes = b, SampleFrameCount = 1602\<rparr>"

definition ntsc_mode :: display_mode where
  "ntsc_mode = \<lparr>DisplayMode = bmdModeNTSC, ModeWidth = 720, ModeHeight = 486,
                ModeFrameDuration = 1001, ModeTimeScale = 30000\<rparr>"

definition input_ok :: input_replies where
  "input_ok = \<lparr>QueryInterface_Input = True, GetDisplayModeIterator = Some [ntsc_mode],
               EnableVideoInput = True, EnableAudioInput = True, StartStreams = True\<rparr>"

definition control_ok :: control_replies where
  "control_ok = \<lparr>control_input = input_ok, QueryInterface_DeckControl = True, Open = True\<rparr>"

definition start_ok :: start_replies where
  "start_ok = \<lparr>first_input = input_ok, second_input = input_ok, start_control = control_ok,
               StartCapture = True\<rparr>"

definition card_ok :: card_replies where
  "card_ok = \<lparr>getDeckLinkCard = True, QueryInterface_Attributes = True,
              GetInt_VideoInputConnections = Some 3, QueryInterface_Configuration = True\<rparr>"

text \<open>The output structure of a helper that has not started a capture.\<close>

definition idle_out :: config_out where
  "idle_out = \<lparr>Status = idle, TC_current = -1, VideoInputConnections = 0\<rparr>"

section \<open>Frames arriving outside a capture\<close>

text \<open>
  C2. A frame-arrival notification received while the status is not \<open>capturing\<close> changes
  nothing at all: no call reaches the output glue and the frame position keeps its value,
  whatever the frame and the audio packet are (absent ones included).
\<close>

theorem C2_not_capturing_discards:
  assumes "Status (Config_Out s) \<noteq> capturing"
  shows "VideoInputFrameArrived v a s = Inr s
         \<and> (\<forall>f. v = Some f \<longrightarrow> discarded f a s \<and> \<not> forwarded f a s)"
  using assms
  by (simp add: VideoInputFrameArrived_def discarded_def forwarded_def new_calls_def)

theorem C2_not_capturing_discards_witness:
  "Status (Config_Out (example_helper (example_config (-1) (-1) (-1)) finished)) \<noteq> capturing
   \<and> VideoInputFrameArrived (Some (example_frame 1 None)) (Some (example_audio 2))
        (example_helper (example_config (-1) (-1) (-1)) finished)
       = Inr (example_helper (example_config (-1) (-1) (-1)) finished)"
proof -
  have h: "Status (Config_Out (example_helper (example_config (-1) (-1) (-1)) finished)) \<noteq> capturing"
    by (simp add: example_helper_def)
  from C2_not_capturing_discards [OF h] h show ?thesis by simp
qed

section \<open>Facts about the helpers\<close>

lemma calls_call: "calls (call c s) = calls s @ [c]"
  by (simp add: call_def)

lemma calls_set_Status: "calls (set_Status st s) = calls s"
  by (simp add: set_Status_def)

lemma Status_set_Status: "Status (Config_Out (set_Status st s)) = st"
  by (simp add: set_Status_def)

lemma Status_call: "Status (Config_Out (call c s)) = Status (Config_Out s)"
  by (simp add: call_def)

lemma finishCapture_finished:
  "Status (Config_Out s) = finished \<Longrightarrow> finishCapture s = (False, s)"
  by (simp add: finishCapture_def)

lemma finishCapture_Status: "Status (Config_Out (snd (finishCapture s))) = finished"
  by (simp add: finishCapture_def Let_def Status_set_Status)

lemma finishCapture_calls:
  "calls (snd (finishCapture s)) =
     calls s @ (if Status (Config_Out s) \<noteq> finished \<and> Glue s then [CloseOutput] else [])"
  by (simp add: finishCapture_def Let_def calls_set_Status calls_call)

lemma finishCapture_result: "fst (finishCapture s) \<longleftrightarrow> Status (Config_Out s) \<noteq> finished"
  by (simp add: finishCapture_def Let_def)

section \<open>Finishing a capture\<close>

text \<open>
  C6. \<open>finishCapture\<close> is idempotent. When the status is already \<open>finished\<close> it
  returns false and changes nothing. Otherwise it returns true, sets the status to
  \<open>finished\<close> and tells the output glue, when one is attached, that the output is closed
  (one \<open>CloseOutput\<close> call). A second call right after the first returns false and changes
  nothing, so two calls in succession leave the status at \<open>finished\<close> both times and make
  exactly one \<open>CloseOutput\<close> call when the capture was not finished and a glue is attached,
  none otherwise.
\<close>

theorem C6_finishCapture_idempotent:
  "(Status (Config_Out s) = finished \<longrightarrow> finishCapture s = (False, s))
   \<and> (Status (Config_Out s) \<noteq> finished \<longrightarrow>
        fst (finishCapture s)
        \<and> Status (Config_Out (snd (finishCapture s))) = finished
        \<and> calls (snd (finishCapture s)) = calls s @ (if Glue s then [CloseOutput] else []))
   \<and> finishCapture (snd (finishCapture s)) = (False, snd (finishCapture s))
   \<and> Status (Config_Out (snd (finishCapture (snd (finishCapture s))))) = finished
   \<and> count_list (calls (snd (finishCapture (snd (finishCapture s))))) CloseOutput
       = count_list (calls s) CloseOutput
         + (if Status (Config_Out s) \<noteq> finished \<and> Glue s then 1 else 0)"
proof -
  have twice: "finishCapture (snd (finishCapture s)) = (False, snd (finishCapture s))"
    by (rule finishCapture_finished) (rule finishCapture_Status)
  show ?thesis
    by (simp add: twice finishCapture_finished finishCapture_Status finishCapture_calls
        finishCapture_result)
qed

theorem C6_finishCapture_idempotent_witness:
  "fst (finishCapture (example_helper (example_config (-1) (-1) (-1)) capturing))
   \<and> count_list (calls (snd (finishCapture (snd (finishCapture
        (example_helper (example_config (-1) (-1) (-1)) capturing)))))) CloseOutput = 1
   \<and> Status (Config_Out (snd (finishCapture
        (example_helper (example_config (-1) (-1) (-1)) capturing)))) = finished
   \<and> finishCapture (snd (finishCapture (example_helper (example_config (-1) (-1) (-1)) capturing)))
       = (False, snd (finishCapture (example_helper (example_config (-1) (-1) (-1)) capturing)))"
proof -
  have h: "Status (Config_Out (example_helper c st)) = st" "Glue (example_helper c st)"
    "calls (example_helper c st) = []" for c st
    by (simp_all add: example_helper_def)
  from C6_finishCapture_idempotent [of "example_helper (example_config (-1) (-1) (-1)) capturing"]
  show ?thesis by (simp add: h)
qed

section \<open>Deck control events\<close>

text \<open>
  C10. Every deck-control event other than prepare-for-capture (capture-complete, aborted,
  prepare-for-export, export-complete and any reserved code) makes the handler run
  \<open>finishCapture\<close>: afterwards the status is \<open>finished\<close>, and when it was not
  \<open>finished\<close> before, the attached output glue has received one \<open>CloseOutput\<close> call.
  The prepare-for-capture event leaves the whole state as it was.
\<close>

theorem C10_deck_events_finish:
  "(ev \<noteq> bmdDeckControlPrepareForCaptureEvent \<longrightarrow>
      DeckControlEventReceived ev s = snd (finishCapture s)
      \<and> Status (Config_Out (DeckControlEventReceived ev s)) = finished
      \<and> calls (DeckControlEventReceived ev s)
          = calls s @ (if Status (Config_Out s) \<noteq> finished \<and> Glue s then [CloseOutput] else []))
   \<and> DeckControlEventReceived bmdDeckControlPrepareForCaptureEvent s = s"
  by (cases ev) (simp_all add: DeckControlEventReceived_def finishCapture_Status finishCapture_calls)

theorem C10_deck_events_finish_witness:
  "Status (Config_Out (DeckControlEventReceived (bmdDeckControlReservedEvent 7)
      (example_helper (example_config (-1) (-1) (-1)) capturing))) = finished
   \<and> calls (DeckControlEventReceived bmdDeckControlExportCompleteEvent
      (example_helper (example_config (-1) (-1) (-1)) capturing)) = [CloseOutput]
   \<and> calls (DeckControlEventReceived bmdDeckControlPrepareForExportEvent
      (example_helper (example_config (-1) (-1) (-1)) aborting)) = [CloseOutput]
   \<and> Status (Config_Out (DeckControlEventReceived bmdDeckControlPrepareForCaptureEvent
      (example_helper (example_config (-1) (-1) (-1)) capturing))) = capturing"
proof -
  have h: "Status (Config_Out (example_helper c st)) = st" "Glue (example_helper c st)"
    "calls (example_helper c st) = []" for c st
    by (simp_all add: example_helper_def)
  have a: "Status (Config_Out (DeckControlEventReceived (bmdDeckControlReservedEvent 7)
      (example_helper (example_config (-1) (-1) (-1)) capturing))) = finished"
    using C10_deck_events_finish [of "bmdDeckControlReservedEvent 7"
          "example_helper (example_config (-1) (-1) (-1)) capturing"] by auto
  have b: "calls (DeckControlEventReceived bmdDeckControlExportCompleteEvent
      (example_helper (example_config (-1) (-1) (-1)) capturing)) = [CloseOutput]"
    using C10_deck_events_finish [of bmdDeckControlExportCompleteEvent
          "example_helper (example_config (-1) (-1) (-1)) capturing"] by (auto simp: h)
  have c: "calls (DeckControlEventReceived bmdDeckControlPrepareForExportEvent
      (example_helper (example_config (-1) (-1) (-1)) aborting)) = [CloseOutput]"
    using C10_deck_events_finish [of bmdDeckControlPrepareForExportEvent
          "example_helper (example_config (-1) (-1) (-1)) aborting"] by (auto simp: h)
  have d: "Status (Config_Out (DeckControlEventReceived bmdDeckControlPrepareForCaptureEvent
      (example_helper (example_config (-1) (-1) (-1)) capturing))) = capturing"
    using C10_deck_events_finish [of bmdDeckControlPrepareForCaptureEvent
          "example_helper (example_config (-1) (-1) (-1)) capturing"] by (auto simp: h)
  from a b c d show ?thesis by simp
qed

section \<open>Teardown\<close>

lemma cleanupControl_absent: "\<not> m_control s \<Longrightarrow> cleanupControl s = (True, s)"
  by (simp add: cleanupControl_def)

lemma cleanupInput_absent: "\<not> m_input s \<Longrightarrow> cleanupInput s = (True, s)"
  by (simp add: cleanupInput_def)

lemma cleanupCard_absent: "\<not> m_card s \<Longrightarrow> cleanupCard s = (True, s)"
  by (simp add: cleanupCard_def)

lemma cleanupControl_closes:
  "fst (cleanupControl s) \<Longrightarrow> \<not> m_control (snd (cleanupControl s))"
  by (auto simp: cleanupControl_def call_def split: if_splits)

lemma cleanupInput_closes: "\<not> m_input (snd (cleanupInput s))"
  by (simp add: cleanupInput_def call_def)

lemma cleanupCard_closes: "\<not> m_card (snd (cleanupCard s))"
  by (simp add: cleanupCard_def call_def)

lemma cleanupControl_finished:
  "Status (Config_Out s) = finished \<Longrightarrow>
   cleanupControl s =
     (True, if m_control s
            then s\<lparr>m_control := False,
                   calls := calls s @ [Control_Close False, Control_SetCallback False, Control_Release]\<rparr>
            else s)"
  by (simp add: cleanupControl_def call_def)

lemma cleanupInput_eq:
  "cleanupInput s =
     (True, if m_input s
            then s\<lparr>m_input := False,
                   calls := calls s @ [Input_StopStreams, Input_DisableVideoInput,
                                       Input_SetCallback False, Input_Release]\<rparr>
            else s)"
  by (simp add: cleanupInput_def call_def)

lemma cleanupCard_eq:
  "cleanupCard s =
     (True, if m_card s then s\<lparr>m_card := False, calls := calls s @ [Card_Release]\<rparr> else s)"
  by (simp add: cleanupCard_def call_def)

lemma finishCapture_fields:
  "m_control (snd (finishCapture s)) = m_control s"
  "m_input (snd (finishCapture s)) = m_input s"
  "m_card (snd (finishCapture s)) = m_card s"
  by (simp_all add: finishCapture_def Let_def set_Status_def call_def)

lemma CaptureHelper_delete_calls:
  "calls (CaptureHelper_delete s) = calls s
     @ (if Status (Config_Out s) \<noteq> finished \<and> Glue s then [CloseOutput] else [])
     @ (if m_control s then [Control_Close False, Control_SetCallback False, Control_Release] else [])
     @ (if m_input s then [Input_StopStreams, Input_DisableVideoInput,
                           Input_SetCallback False, Input_Release] else [])
     @ (if m_card s then [Card_Release] else [])"
  by (simp add: CaptureHelper_delete_def cleanupControl_finished finishCapture_Status
      cleanupInput_eq cleanupCard_eq finishCapture_fields finishCapture_calls)

lemma CaptureHelper_delete_fields:
  "Status (Config_Out (CaptureHelper_delete s)) = finished"
  "\<not> m_control (CaptureHelper_delete s)"
  "\<not> m_input (CaptureHelper_delete s)"
  "\<not> m_card (CaptureHelper_delete s)"
  by (simp_all add: CaptureHelper_delete_def cleanupControl_finished finishCapture_Status
      cleanupInput_eq cleanupCard_eq finishCapture_fields)

lemma CaptureHelper_delete_noop:
  "Status (Config_Out s) = finished \<Longrightarrow> \<not> m_control s \<Longrightarrow> \<not> m_input s \<Longrightarrow> \<not> m_card s
   \<Longrightarrow> CaptureHelper_delete s = s"
  by (simp add: CaptureHelper_delete_def finishCapture_finished cleanupControl_absent
      cleanupInput_absent cleanupCard_absent)

text \<open>
  C7. The destructor finishes the capture (one \<open>CloseOutput\<close> to an attached glue when the
  capture was not finished yet), then closes the deck control, then closes the input, then
  releases the card: the calls it makes are exactly these, in this order, and only for the
  resources that are held. Each close step does nothing on a resource that is not held,
  and a close step that has closed its resource does nothing when repeated; inside the
  destructor the deck-control step always closes, because the capture is finished by then.
  Destroying twice equals destroying once.
\<close>

theorem C7_teardown_order:
  "calls (CaptureHelper_delete s) = calls s
     @ (if Status (Config_Out s) \<noteq> finished \<and> Glue s then [CloseOutput] else [])
     @ (if m_control s then [Control_Close False, Control_SetCallback False, Control_Release] else [])
     @ (if m_input s then [Input_StopStreams, Input_DisableVideoInput,
                           Input_SetCallback False, Input_Release] else [])
     @ (if m_card s then [Card_Release] else [])
   \<and> Status (Config_Out (CaptureHelper_delete s)) = finished
   \<and> \<not> m_control (CaptureHelper_delete s)
   \<and> \<not> m_input (CaptureHelper_delete s)
   \<and> \<not> m_card (CaptureHelper_delete s)
   \<and> fst (cleanupControl (snd (finishCapture s)))
   \<and> (\<not> m_control s \<longrightarrow> cleanupControl s = (True, s))
   \<and> (\<not> m_input s \<longrightarrow> cleanupInput s = (True, s))
   \<and> (\<not> m_card s \<longrightarrow> cleanupCard s = (True, s))
   \<and> (fst (cleanupControl s) \<longrightarrow>
        cleanupControl (snd (cleanupControl s)) = (True, snd (cleanupControl s)))
   \<and> cleanupInput (snd (cleanupInput s)) = (True, snd (cleanupInput s))
   \<and> cleanupCard (snd (cleanupCard s)) = (True, snd (cleanupCard s))
   \<and> CaptureHelper_delete (CaptureHelper_delete s) = CaptureHelper_delete s"
proof -
  have a: "fst (cleanupControl (snd (finishCapture s)))"
    by (simp add: cleanupControl_finished finishCapture_Status)
  have b: "fst (cleanupControl s) \<longrightarrow>
        cleanupControl (snd (cleanupControl s)) = (True, snd (cleanupControl s))"
    by (simp add: cleanupControl_absent cleanupControl_closes)
  have c: "cleanupInput (snd (cleanupInput s)) = (True, snd (cleanupInput s))"
    by (rule cleanupInput_absent) (rule cleanupInput_closes)
  have d: "cleanupCard (snd (cleanupCard s)) = (True, snd (cleanupCard s))"
    by (rule cleanupCard_absent) (rule cleanupCard_closes)
  have e: "CaptureHelper_delete (CaptureHelper_delete s) = CaptureHelper_delete s"
    by (rule CaptureHelper_delete_noop) (rule CaptureHelper_delete_fields)+
  show ?thesis
    using a b c d e
    by (simp add: CaptureHelper_delete_calls CaptureHelper_delete_fields cleanupControl_absent
        cleanupInput_absent cleanupCard_absent)
qed

theorem C7_teardown_order_witness:
  "calls (CaptureHelper_delete (example_helper (example_config (-1) (-1) (-1)) capturing))
     = [CloseOutput, Control_Close False, Control_SetCallback False, Control_Release,
        Input_StopStreams, Input_DisableVideoInput, Input_SetCallback False, Input_Release,
        Card_Release]
   \<and> calls (CaptureHelper_delete
        ((example_helper (example_config (-1) (-1) (-1)) idle)\<lparr>m_control := False\<rparr>))
     = [CloseOutput, Input_StopStreams, Input_DisableVideoInput, Input_SetCallback False,
        Input_Release, Card_Release]
   \<and> cleanupControl ((example_helper (example_config (-1) (-1) (-1)) idle)\<lparr>m_control := False\<rparr>)
     = (True, (example_helper (example_config (-1) (-1) (-1)) idle)\<lparr>m_control := False\<rparr>)"
proof -
  have a: "calls (CaptureHelper_delete (example_helper (example_config (-1) (-1) (-1)) capturing))
     = [CloseOutput, Control_Close False, Control_SetCallback False, Control_Release,
        Input_StopStreams, Input_DisableVideoInput, Input_SetCallback False, Input_Release,
        Card_Release]"
    using C7_teardown_order [of "example_helper (example_config (-1) (-1) (-1)) capturing"]
    by (auto simp: example_helper_def)
  have b: "calls (CaptureHelper_delete
        ((example_helper (example_config (-1) (-1) (-1)) idle)\<lparr>m_control := False\<rparr>))
     = [CloseOutput, Input_StopStreams, Input_DisableVideoInput, Input_SetCallback False,
        Input_Release, Card_Release]
   \<and> cleanupControl ((example_helper (example_config (-1) (-1) (-1)) idle)\<lparr>m_control := False\<rparr>)
     = (True, (example_helper (example_config (-1) (-1) (-1)) idle)\<lparr>m_control := False\<rparr>)"
    using C7_teardown_order
      [of "(example_helper (example_config (-1) (-1) (-1)) idle)\<lparr>m_control := False\<rparr>"]
    by (auto simp: example_helper_def)
  from a b show ?thesis by simp
qed

section \<open>Reading the timecode\<close>

lemma readTimeCode_no_communication:
  "m_control s \<Longrightarrow>
   readTimeCode (GetTimecode_failed bmdDeckControlNoCommunicationError) s
     = Inr (set_TC_current (-1) ((call Control_GetTimecode s)\<lparr>WantTimeCode := True\<rparr>))"
  by (simp add: readTimeCode_def Let_def)

lemma readTimeCode_other_error:
  "m_control s \<Longrightarrow> e \<noteq> bmdDeckControlNoCommunicationError \<Longrightarrow>
   readTimeCode (GetTimecode_failed e) s = Inr (set_TC_current (-1) (call Control_GetTimecode s))"
  by (simp add: readTimeCode_def Let_def)

lemma readTimeCode_queries_once:
  "readTimeCode r s = Inr s' \<Longrightarrow>
   count_list (calls s') Control_GetTimecode = count_list (calls s) Control_GetTimecode + 1
   \<and> m_control s'
   \<and> TC_current (Config_Out s') = (case r of GetTimecode_ok bcd \<Rightarrow> bcd | GetTimecode_failed e \<Rightarrow> -1)"
  by (auto simp: readTimeCode_def Let_def call_def set_TC_current_def
      split: if_splits timecode_reply.splits)

lemma readTimeCode_returns: "m_control s \<Longrightarrow> \<exists>s'. readTimeCode r s = Inr s'"
  by (simp add: readTimeCode_def Let_def split: timecode_reply.splits)

lemma DeckControlStatusChanged_not_connected:
  "\<not> reports_connected fl m \<Longrightarrow> DeckControlStatusChanged fl m r s = Inr s"
  by (auto simp: DeckControlStatusChanged_def reports_connected_def)

lemma DeckControlStatusChanged_not_wanted:
  "\<not> WantTimeCode s \<Longrightarrow> DeckControlStatusChanged fl m r s = Inr s"
  by (simp add: DeckControlStatusChanged_def)

lemma DeckControlStatusChanged_retry:
  "reports_connected fl m \<Longrightarrow> WantTimeCode s \<Longrightarrow> readTimeCode r s = Inr s' \<Longrightarrow>
   DeckControlStatusChanged fl m r s = Inr (s'\<lparr>WantTimeCode := False\<rparr>)"
  by (simp add: DeckControlStatusChanged_def reports_connected_def)

text \<open>
  C8. With a deck control present, a timecode query that fails with the no-communication
  error returns normally: the current timecode is set to unknown (\<open>-1\<close>), the status is
  untouched and the request is remembered in \<open>WantTimeCode\<close>; any other error leaves
  that flag as it was. A status event that does not report the deck as connected changes
  nothing, so the request stays pending. The next status event that reports the deck as
  connected queries the timecode exactly once more and clears the flag, whatever the
  query answers; after that no status event queries again.
\<close>

theorem C8_pending_timecode_retry:
  assumes "m_control s"
  shows "\<exists>s1. readTimeCode (GetTimecode_failed bmdDeckControlNoCommunicationError) s = Inr s1
     \<and> WantTimeCode s1
     \<and> TC_current (Config_Out s1) = -1
     \<and> Status (Config_Out s1) = Status (Config_Out s)
     \<and> (\<forall>e. e \<noteq> bmdDeckControlNoCommunicationError \<longrightarrow>
          (\<exists>s'. readTimeCode (GetTimecode_failed e) s = Inr s'
             \<and> WantTimeCode s' = WantTimeCode s))
     \<and> (\<forall>fl m r. \<not> reports_connected fl m \<longrightarrow> DeckControlStatusChanged fl m r s1 = Inr s1)
     \<and> (\<forall>fl m r. reports_connected fl m \<longrightarrow>
          (\<exists>s2. DeckControlStatusChanged fl m r s1 = Inr s2
             \<and> \<not> WantTimeCode s2
             \<and> count_list (calls s2) Control_GetTimecode
                 = count_list (calls s1) Control_GetTimecode + 1
             \<and> TC_current (Config_Out s2)
                 = (case r of GetTimecode_ok bcd \<Rightarrow> bcd | GetTimecode_failed e \<Rightarrow> -1)
             \<and> (\<forall>fl' m' r'. DeckControlStatusChanged fl' m' r' s2 = Inr s2)))"
proof -
  let ?s1 = "set_TC_current (-1) ((call Control_GetTimecode s)\<lparr>WantTimeCode := True\<rparr>)"
  have r1: "readTimeCode (GetTimecode_failed bmdDeckControlNoCommunicationError) s = Inr ?s1"
    using assms by (rule readTimeCode_no_communication)
  have w1: "WantTimeCode ?s1" and t1: "TC_current (Config_Out ?s1) = -1"
    and st1: "Status (Config_Out ?s1) = Status (Config_Out s)" and c1: "m_control ?s1"
    using assms by (simp_all add: set_TC_current_def call_def)
  have retry: "\<exists>s2. DeckControlStatusChanged fl m r ?s1 = Inr s2
             \<and> \<not> WantTimeCode s2
             \<and> count_list (calls s2) Control_GetTimecode
                 = count_list (calls ?s1) Control_GetTimecode + 1
             \<and> TC_current (Config_Out s2)
                 = (case r of GetTimecode_ok bcd \<Rightarrow> bcd | GetTimecode_failed e \<Rightarrow> -1)
             \<and> (\<forall>fl' m' r'. DeckControlStatusChanged fl' m' r' s2 = Inr s2)"
    if conn: "reports_connected fl m" for fl m r
  proof -
    from c1 obtain s' where s': "readTimeCode r ?s1 = Inr s'"
      using readTimeCode_returns by blast
    let ?s2 = "s'\<lparr>WantTimeCode := False\<rparr>"
    have d: "DeckControlStatusChanged fl m r ?s1 = Inr ?s2"
      using conn w1 s' by (rule DeckControlStatusChanged_retry)
    have q: "count_list (calls ?s2) Control_GetTimecode
               = count_list (calls ?s1) Control_GetTimecode + 1"
      and tc: "TC_current (Config_Out ?s2)
                 = (case r of GetTimecode_ok bcd \<Rightarrow> bcd | GetTimecode_failed e \<Rightarrow> -1)"
      using readTimeCode_queries_once [OF s'] by simp_all
    have n: "\<forall>fl' m' r'. DeckControlStatusChanged fl' m' r' ?s2 = Inr ?s2"
      by (simp add: DeckControlStatusChanged_not_wanted)
    from d q tc n show ?thesis by (intro exI [of _ ?s2]) simp
  qed
  have other: "\<exists>s'. readTimeCode (GetTimecode_failed e) s = Inr s'
             \<and> WantTimeCode s' = WantTimeCode s"
    if "e \<noteq> bmdDeckControlNoCommunicationError" for e
    using readTimeCode_other_error [OF assms that] by (simp add: set_TC_current_def call_def)
  show ?thesis
    using r1 w1 t1 st1 retry other DeckControlStatusChanged_not_connected
    by (intro exI [of _ ?s1]) blast
qed

lemma one_connected: "reports_connected 1 1"
  by (simp add: reports_connected_def bmdDeckControlStatusDeckConnected_def)

theorem C8_pending_timecode_retry_witness:
  "m_control (example_helper (example_config (-1) (-1) (-1)) idle)
   \<and> (\<exists>s1. readTimeCode (GetTimecode_failed bmdDeckControlNoCommunicationError)
             (example_helper (example_config (-1) (-1) (-1)) idle) = Inr s1
        \<and> WantTimeCode s1
        \<and> (\<exists>s2. DeckControlStatusChanged 1 1 (GetTimecode_ok 0x01000000) s1 = Inr s2
              \<and> \<not> WantTimeCode s2
              \<and> TC_current (Config_Out s2) = 0x01000000))"
proof -
  have h: "m_control (example_helper (example_config (-1) (-1) (-1)) idle)"
    by (simp add: example_helper_def)
  from C8_pending_timecode_retry [OF h] obtain s1 where
    a: "readTimeCode (GetTimecode_failed bmdDeckControlNoCommunicationError)
             (example_helper (example_config (-1) (-1) (-1)) idle) = Inr s1"
    and b: "WantTimeCode s1"
    and c: "\<forall>fl m r. reports_connected fl m \<longrightarrow>
          (\<exists>s2. DeckControlStatusChanged fl m r s1 = Inr s2
             \<and> \<not> WantTimeCode s2
             \<and> count_list (calls s2) Control_GetTimecode
                 = count_list (calls s1) Control_GetTimecode + 1
             \<and> TC_current (Config_Out s2)
                 = (case r of GetTimecode_ok bcd \<Rightarrow> bcd | GetTimecode_failed e \<Rightarrow> -1)
             \<and> (\<forall>fl' m' r'. DeckControlStatusChanged fl' m' r' s2 = Inr s2))"
    by blast
  from c one_connected obtain s2 where
    "DeckControlStatusChanged 1 1 (GetTimecode_ok 0x01000000) s1 = Inr s2"
    "\<not> WantTimeCode s2"
    "TC_current (Config_Out s2) = (case GetTimecode_ok 0x01000000 of GetTimecode_ok bcd \<Rightarrow> bcd | GetTimecode_failed e \<Rightarrow> -1)"
    by blast
  with a b h show ?thesis by auto
qed

section \<open>Frames without an audio packet\<close>

lemma decode_frame_no_audio: "decode_frame f None s = Inl NullPointer"
  by (simp add: decode_frame_def)

text \<open>
  C9. The block that forwards an accepted frame calls \<open>GetBytes\<close> and
  \<open>GetSampleFrameCount\<close> on the audio packet without testing the pointer, unlike the
  two diagnostic lines above it. So every frame that is accepted while capturing and
  arrives without an audio packet ends its notification in a null-pointer dereference,
  and its video buffer is not forwarded.
\<close>

theorem C9_accepted_frame_without_audio:
  assumes "Status (Config_Out s) = capturing" and "ShouldDecode f s"
  shows "VideoInputFrameArrived (Some f) None s = Inl NullPointer \<and> \<not> forwarded f None s"
  using assms
  by (simp add: VideoInputFrameArrived_def decode_frame_no_audio forwarded_def)

theorem C9_accepted_frame_without_audio_witness:
  "Status (Config_Out (example_helper (example_config (-1) (-1) (-1)) capturing)) = capturing
   \<and> ShouldDecode (example_frame 1 None) (example_helper (example_config (-1) (-1) (-1)) capturing)
   \<and> VideoInputFrameArrived (Some (example_frame 1 None)) None
        (example_helper (example_config (-1) (-1) (-1)) capturing) = Inl NullPointer"
proof -
  have a: "Status (Config_Out (example_helper (example_config (-1) (-1) (-1)) capturing)) = capturing"
    by (simp add: example_helper_def)
  have b: "ShouldDecode (example_frame 1 None)
             (example_helper (example_config (-1) (-1) (-1)) capturing)"
    by (simp add: ShouldDecode_def example_frame_def example_helper_def example_config_def)
  from C9_accepted_frame_without_audio [OF a b] a b show ?thesis by simp
qed

section \<open>Gating of frames during a capture\<close>

lemma stop_bounded:
  "TC_in (Config_In s) \<noteq> -1 \<Longrightarrow> m_control s \<Longrightarrow>
   stop s = Inr (set_Status aborting (call Control_Abort s))"
  by (simp add: stop_def)

lemma stop_unbounded:
  "TC_in (Config_In s) = -1 \<Longrightarrow> m_control s \<Longrightarrow>
   stop s = Inr (snd (finishCapture (call Control_Stop s)))"
  by (simp add: stop_def)

lemma stop_no_control: "\<not> m_control s \<Longrightarrow> stop s = Inl NullPointer"
  by (simp add: stop_def)

lemma stop_Inr:
  assumes "stop s = Inr s'"
  shows "m_FramePos s' = m_FramePos s" and "Glue s' = Glue s" and "Config_In s' = Config_In s"
    and "calls s' = calls s @
           (if TC_in (Config_In s) \<noteq> -1 then [Control_Abort]
            else Control_Stop # (if Status (Config_Out s) \<noteq> finished \<and> Glue s
                                 then [CloseOutput] else []))"
    and "Status (Config_Out s') = (if TC_in (Config_In s) \<noteq> -1 then aborting else finished)"
  using assms
  by (auto simp: stop_def finishCapture_def Let_def set_Status_def call_def split: if_splits)

text \<open>The state after the two output calls and the increment of the frame position.\<close>

lemma decode_frame_Some:
  "decode_frame f (Some a) s =
    (if FrameCount (Config_In s) \<noteq> -1 \<and> m_FramePos s + 1 \<ge> FrameCount (Config_In s)
     then stop ((if Glue s
                 then s\<lparr>calls := calls s @ [video_output f (m_FramePos s),
                                              audio_output a (m_FramePos s)]\<rparr>
                 else s)\<lparr>m_FramePos := m_FramePos s + 1\<rparr>)
     else Inr ((if Glue s
                then s\<lparr>calls := calls s @ [video_output f (m_FramePos s),
                                             audio_output a (m_FramePos s)]\<rparr>
                else s)\<lparr>m_FramePos := m_FramePos s + 1\<rparr>))"
  by (simp add: decode_frame_def Let_def call_def video_output_def audio_output_def)

lemma decode_frame_Inr:
  assumes "decode_frame f a s = Inr s'"
  shows "m_FramePos s' = m_FramePos s + 1" and "Glue s' = Glue s" and "Config_In s' = Config_In s"
    and "\<exists>ap rest. a = Some ap \<and> calls s' = calls s @
           (if Glue s then [video_output f (m_FramePos s), audio_output ap (m_FramePos s)] else [])
           @ rest \<and> video_positions rest = []"
proof -
  from assms obtain ap where a: "a = Some ap"
    by (cases a) (simp_all add: decode_frame_no_audio)
  let ?s2 = "(if Glue s
                 then s\<lparr>calls := calls s @ [video_output f (m_FramePos s),
                                              audio_output ap (m_FramePos s)]\<rparr>
                 else s)\<lparr>m_FramePos := m_FramePos s + 1\<rparr>"
  have s2: "m_FramePos ?s2 = m_FramePos s + 1" "Glue ?s2 = Glue s" "Config_In ?s2 = Config_In s"
    "calls ?s2 = calls s @
       (if Glue s then [video_output f (m_FramePos s), audio_output ap (m_FramePos s)] else [])"
    by simp_all
  from assms a have "stop ?s2 = Inr s' \<or> s' = ?s2"
    by (simp add: decode_frame_Some split: if_splits)
  then have "m_FramePos s' = m_FramePos s + 1 \<and> Glue s' = Glue s \<and> Config_In s' = Config_In s
    \<and> (\<exists>rest. calls s' = calls s @
           (if Glue s then [video_output f (m_FramePos s), audio_output ap (m_FramePos s)] else [])
           @ rest \<and> video_positions rest = [])"
  proof
    assume st: "stop ?s2 = Inr s'"
    show ?thesis
      using stop_Inr [OF st] by (simp only: s2) simp
  next
    assume "s' = ?s2"
    then show ?thesis by simp
  qed
  with a show "m_FramePos s' = m_FramePos s + 1" and "Glue s' = Glue s"
    and "Config_In s' = Config_In s"
    and "\<exists>ap rest. a = Some ap \<and> calls s' = calls s @
           (if Glue s then [video_output f (m_FramePos s), audio_output ap (m_FramePos s)] else [])
           @ rest \<and> video_positions rest = []"
    by auto
qed

lemma observe_timecode_fields:
  "m_FramePos (observe_timecode f s) = m_FramePos s"
  "calls (observe_timecode f s) = calls s"
  "Glue (observe_timecode f s) = Glue s"
  "Config_In (observe_timecode f s) = Config_In s"
  "m_control (observe_timecode f s) = m_control s"
  "Status (Config_Out (observe_timecode f s)) = Status (Config_Out s)"
  by (simp_all add: observe_timecode_def set_TC_current_def split: option.splits)

lemma word_less_not_max: "(x :: 32 word) < y \<Longrightarrow> x \<noteq> -1"
  by (metis word_n1_ge not_le)

lemma ShouldDecode_bounded:
  assumes "TC_in (Config_In s) \<noteq> -1"
    and "FrameCount (Config_In s) = -1 \<or> m_FramePos s < FrameCount (Config_In s)"
    and "GetTimecode f = Some T"
  shows "ShouldDecode f s \<longleftrightarrow>
           TC_in (Config_In s) \<le> T \<and> T < TC_out (Config_In s) \<and> T \<noteq> TC_current (Config_Out s)"
  using assms word_less_not_max [of T "TC_out (Config_In s)"]
  by (auto simp: ShouldDecode_def Let_def not_le not_less)

lemma VideoInputFrameArrived_rejected:
  "Status (Config_Out s) = capturing \<Longrightarrow> \<not> ShouldDecode f s \<Longrightarrow>
   VideoInputFrameArrived (Some f) a s = Inr (observe_timecode f s)"
  by (simp add: VideoInputFrameArrived_def)

lemma VideoInputFrameArrived_accepted:
  "Status (Config_Out s) = capturing \<Longrightarrow> ShouldDecode f s \<Longrightarrow>
   VideoInputFrameArrived (Some f) a s = decode_frame f a (observe_timecode f s)"
  by (simp add: VideoInputFrameArrived_def)

lemma discarded_iff:
  assumes "Status (Config_Out s) = capturing"
  shows "discarded f a s \<longleftrightarrow> \<not> ShouldDecode f s"
proof (cases "ShouldDecode f s")
  case False
  with assms show ?thesis
    by (simp add: discarded_def VideoInputFrameArrived_rejected observe_timecode_fields)
next
  case True
  have "\<not> discarded f a s"
  proof (cases "decode_frame f a (observe_timecode f s)")
    case (Inl e)
    with assms True show ?thesis
      by (simp add: discarded_def VideoInputFrameArrived_accepted)
  next
    case (Inr s')
    from decode_frame_Inr(1) [OF Inr] have "m_FramePos s' \<noteq> m_FramePos s"
      by (simp add: observe_timecode_fields)
    with assms True Inr show ?thesis
      by (simp add: discarded_def VideoInputFrameArrived_accepted)
  qed
  with True show ?thesis by simp
qed

lemma forwarded_imp_ShouldDecode:
  assumes "Status (Config_Out s) = capturing" and "forwarded f a s"
  shows "ShouldDecode f s"
proof (rule ccontr)
  assume "\<not> ShouldDecode f s"
  with assms show False
    by (simp add: forwarded_def VideoInputFrameArrived_rejected new_calls_def
        observe_timecode_fields)
qed

lemma accepted_forwarded:
  assumes cap: "Status (Config_Out s) = capturing" and sd: "ShouldDecode f s"
    and glue: "Glue s"
    and ctl: "m_control s \<or> FrameCount (Config_In s) = -1
              \<or> m_FramePos s + 1 < FrameCount (Config_In s)"
  shows "forwarded f (Some ap) s"
proof -
  let ?o = "observe_timecode f s"
  let ?s2 = "(?o\<lparr>calls := calls ?o @ [video_output f (m_FramePos ?o),
                                        audio_output ap (m_FramePos ?o)]\<rparr>)
             \<lparr>m_FramePos := m_FramePos ?o + 1\<rparr>"
  have "\<exists>s'. decode_frame f (Some ap) ?o = Inr s'"
  proof (cases "FrameCount (Config_In ?o) \<noteq> -1 \<and> m_FramePos ?o + 1 \<ge> FrameCount (Config_In ?o)")
    case False
    then show ?thesis by (auto simp: decode_frame_Some)
  next
    case True
    with ctl have "m_control ?s2" by (auto simp: observe_timecode_fields)
    then have "\<exists>s'. stop ?s2 = Inr s'" by (simp add: stop_def)
    with True glue show ?thesis
      by (simp add: decode_frame_Some observe_timecode_fields)
  qed
  then obtain s' where d: "decode_frame f (Some ap) ?o = Inr s'" by blast
  from decode_frame_Inr(4) [OF d] glue obtain rest where
    "calls s' = calls s @ [video_output f (m_FramePos s), audio_output ap (m_FramePos s)] @ rest"
    by (auto simp: observe_timecode_fields)
  with cap sd d show ?thesis
    by (simp add: forwarded_def VideoInputFrameArrived_accepted new_calls_def)
qed

lemma stop_TC_current:
  "stop s = Inr s' \<Longrightarrow> TC_current (Config_Out s') = TC_current (Config_Out s)"
  by (auto simp: stop_def finishCapture_def Let_def set_Status_def call_def split: if_splits)

lemma decode_frame_TC_current:
  assumes "decode_frame f a s = Inr s'"
  shows "TC_current (Config_Out s') = TC_current (Config_Out s)"
proof -
  from assms obtain ap where a: "a = Some ap"
    by (cases a) (simp_all add: decode_frame_no_audio)
  let ?s2 = "(if Glue s
                 then s\<lparr>calls := calls s @ [video_output f (m_FramePos s),
                                              audio_output ap (m_FramePos s)]\<rparr>
                 else s)\<lparr>m_FramePos := m_FramePos s + 1\<rparr>"
  from assms a have "stop ?s2 = Inr s' \<or> s' = ?s2"
    by (simp add: decode_frame_Some split: if_splits)
  then show ?thesis
  proof
    assume "stop ?s2 = Inr s'"
    from stop_TC_current [OF this] show ?thesis by simp
  next
    assume "s' = ?s2" then show ?thesis by simp
  qed
qed

lemma observe_timecode_TC_current:
  "GetTimecode f = Some T \<Longrightarrow> TC_current (Config_Out (observe_timecode f s)) = T"
  by (simp add: observe_timecode_def set_TC_current_def)

text \<open>Whether the frame is forwarded or discarded, its timecode is the current timecode
  when the notification returns.\<close>

lemma frame_observed:
  assumes cap: "Status (Config_Out s) = capturing" and tc: "GetTimecode f = Some T"
    and r: "VideoInputFrameArrived (Some f) a s = Inr s'"
  shows "TC_current (Config_Out s') = T" and "Config_In s' = Config_In s"
proof -
  have "TC_current (Config_Out s') = T \<and> Config_In s' = Config_In s"
  proof (cases "ShouldDecode f s")
    case False
    with r cap have "s' = observe_timecode f s"
      by (simp add: VideoInputFrameArrived_rejected)
    with tc show ?thesis
      by (simp add: observe_timecode_TC_current observe_timecode_fields)
  next
    case True
    with r cap have d: "decode_frame f a (observe_timecode f s) = Inr s'"
      by (simp add: VideoInputFrameArrived_accepted)
    from decode_frame_TC_current [OF d] decode_frame_Inr(3) [OF d] tc show ?thesis
      by (simp add: observe_timecode_TC_current observe_timecode_fields)
  qed
  then show "TC_current (Config_Out s') = T" and "Config_In s' = Config_In s"
    by simp_all
qed

lemma repeated_timecode_rejected:
  assumes "TC_in (Config_In s) \<noteq> -1" and "GetTimecode f = Some T"
    and "TC_current (Config_Out s) = T"
  shows "\<not> ShouldDecode f s"
proof (cases "T = -1")
  case True
  then have "TC_out (Config_In s) \<le> T" by (simp add: word_n1_ge)
  with assms show ?thesis by (simp add: ShouldDecode_def Let_def)
next
  case False
  with assms show ?thesis by (simp add: ShouldDecode_def Let_def)
qed

lemma repeated_timecode_discarded:
  assumes "TC_in (Config_In s) \<noteq> -1" and "GetTimecode f = Some T"
    and "TC_current (Config_Out s) = T"
  shows "discarded f a s" and "\<not> forwarded f a s"
proof -
  have "discarded f a s \<and> \<not> forwarded f a s"
  proof (cases "Status (Config_Out s) = capturing")
    case True
    from repeated_timecode_rejected [OF assms] discarded_iff [OF True]
      forwarded_imp_ShouldDecode [OF True]
    show ?thesis by blast
  next
    case False
    then show ?thesis
      by (simp add: discarded_def forwarded_def new_calls_def VideoInputFrameArrived_def)
  qed
  then show "discarded f a s" and "\<not> forwarded f a s" by simp_all
qed

text \<open>
  C1. In a bounded capture (a timecode-in bound is configured), while the status is
  \<open>capturing\<close> and the frame position has not reached a configured frame-count limit, the
  decision taken for a frame that carries the timecode \<open>T\<close> is: accept if and only if
  \<open>T_in \<le> T < T_out\<close> and \<open>T\<close> differs from the current timecode observed last.
  A frame that is forwarded satisfies these conditions; a frame that satisfies them is
  forwarded to the attached output glue (the deck control that a bounded capture opens
  being present and the frame coming with its audio packet); a frame is discarded, with
  no call made and the frame position unchanged, exactly when it fails one of them. The
  current timecode observed last is the timecode of the frame notified just before:
  when the notification returns, forwarded or not, the current timecode is \<open>T\<close>, and any
  frame that comes next with the same timecode \<open>T\<close> is discarded and not forwarded. The
  order \<open>T_in < T_out\<close> of the bounds is not needed for any of this.
\<close>

theorem C1_bounded_gating:
  assumes "Status (Config_Out s) = capturing"
    and "TC_in (Config_In s) \<noteq> -1"
    and "FrameCount (Config_In s) = -1 \<or> m_FramePos s < FrameCount (Config_In s)"
    and "GetTimecode f = Some T"
  shows "(ShouldDecode f s \<longleftrightarrow>
            TC_in (Config_In s) \<le> T \<and> T < TC_out (Config_In s) \<and> T \<noteq> TC_current (Config_Out s))
       \<and> (forwarded f a s \<longrightarrow>
            TC_in (Config_In s) \<le> T \<and> T < TC_out (Config_In s) \<and> T \<noteq> TC_current (Config_Out s))
       \<and> (Glue s \<and> m_control s \<and> a \<noteq> None \<longrightarrow>
            TC_in (Config_In s) \<le> T \<and> T < TC_out (Config_In s) \<and> T \<noteq> TC_current (Config_Out s) \<longrightarrow>
            forwarded f a s)
       \<and> (discarded f a s \<longleftrightarrow>
            \<not> (TC_in (Config_In s) \<le> T \<and> T < TC_out (Config_In s)
               \<and> T \<noteq> TC_current (Config_Out s)))
       \<and> (\<forall>s'. VideoInputFrameArrived (Some f) a s = Inr s' \<longrightarrow>
            TC_current (Config_Out s') = T
            \<and> (\<forall>f' a'. GetTimecode f' = Some T \<longrightarrow> discarded f' a' s' \<and> \<not> forwarded f' a' s'))"
proof -
  note sd = ShouldDecode_bounded [OF assms(2,3,4)]
  have a1: "forwarded f a s \<longrightarrow> ShouldDecode f s"
    using forwarded_imp_ShouldDecode [OF assms(1)] by blast
  have a2: "Glue s \<and> m_control s \<and> a \<noteq> None \<longrightarrow> ShouldDecode f s \<longrightarrow> forwarded f a s"
    using accepted_forwarded [OF assms(1)] by (cases a) auto
  have a3: "discarded f a s \<longleftrightarrow> \<not> ShouldDecode f s"
    by (rule discarded_iff [OF assms(1)])
  have a4: "TC_current (Config_Out s') = T
            \<and> (\<forall>f' a'. GetTimecode f' = Some T \<longrightarrow> discarded f' a' s' \<and> \<not> forwarded f' a' s')"
    if r: "VideoInputFrameArrived (Some f) a s = Inr s'" for s'
  proof -
    note o = frame_observed [OF assms(1,4) r]
    from o(2) assms(2) have b: "TC_in (Config_In s') \<noteq> -1" by simp
    from repeated_timecode_discarded [OF b _ o(1)] o(1) show ?thesis by blast
  qed
  from a1 a2 a3 have "(forwarded f a s \<longrightarrow> ShouldDecode f s)
       \<and> (Glue s \<and> m_control s \<and> a \<noteq> None \<longrightarrow> ShouldDecode f s \<longrightarrow> forwarded f a s)
       \<and> (discarded f a s \<longleftrightarrow> \<not> ShouldDecode f s)"
    by blast
  with a4 show ?thesis unfolding sd by blast
qed

theorem C1_bounded_gating_witness:
  "Status (Config_Out (example_helper (example_config (-1) 0x01000000 0x01001000) capturing)) = capturing
   \<and> TC_in (Config_In (example_helper (example_config (-1) 0x01000000 0x01001000) capturing)) \<noteq> -1
   \<and> forwarded (example_frame 1 (Some 0x01000500)) (Some (example_audio 2))
        (example_helper (example_config (-1) 0x01000000 0x01001000) capturing)
   \<and> discarded (example_frame 1 (Some 0x01001000)) (Some (example_audio 2))
        (example_helper (example_config (-1) 0x01000000 0x01001000) capturing)
   \<and> discarded (example_frame 1 (Some 0x00595929)) (Some (example_audio 2))
        (example_helper (example_config (-1) 0x01000000 0x01001000) capturing)
   \<and> (\<exists>s'. VideoInputFrameArrived (Some (example_frame 1 (Some 0x01000500)))
              (Some (example_audio 2))
              (example_helper (example_config (-1) 0x01000000 0x01001000) capturing) = Inr s'
         \<and> TC_current (Config_Out s') = 0x01000500
         \<and> discarded (example_frame 3 (Some 0x01000500)) (Some (example_audio 4)) s'
         \<and> \<not> forwarded (example_frame 3 (Some 0x01000500)) (Some (example_audio 4)) s')"
proof -
  let ?s = "example_helper (example_config (-1) 0x01000000 0x01001000) capturing"
  have h: "Status (Config_Out ?s) = capturing" "TC_in (Config_In ?s) \<noteq> -1"
    "FrameCount (Config_In ?s) = -1 \<or> m_FramePos ?s < FrameCount (Config_In ?s)"
    "Glue ?s" "m_control ?s" "TC_in (Config_In ?s) = 0x01000000"
    "TC_out (Config_In ?s) = 0x01001000" "TC_current (Config_Out ?s) = -1"
    by (simp_all add: example_helper_def example_config_def)
  have g: "GetTimecode (example_frame b (Some T)) = Some T" for b T
    by (simp add: example_frame_def)
  have a: "forwarded (example_frame 1 (Some 0x01000500)) (Some (example_audio 2)) ?s"
    using C1_bounded_gating [OF h(1,2,3) g [of 1 "0x01000500"], where a = "Some (example_audio 2)"]
    by (simp add: h)
  have b: "discarded (example_frame 1 (Some 0x01001000)) (Some (example_audio 2)) ?s"
    using C1_bounded_gating [OF h(1,2,3) g [of 1 "0x01001000"], where a = "Some (example_audio 2)"]
    by (simp add: h)
  have c: "discarded (example_frame 1 (Some 0x00595929)) (Some (example_audio 2)) ?s"
    using C1_bounded_gating [OF h(1,2,3) g [of 1 "0x00595929"], where a = "Some (example_audio 2)"]
    by (simp add: h)
  from a obtain s' where
    r: "VideoInputFrameArrived (Some (example_frame 1 (Some 0x01000500)))
          (Some (example_audio 2)) ?s = Inr s'"
    by (auto simp: forwarded_def split: sum.splits)
  from C1_bounded_gating [OF h(1,2,3) g [of 1 "0x01000500"], where a = "Some (example_audio 2)"] r
  have d: "TC_current (Config_Out s') = 0x01000500
         \<and> discarded (example_frame 3 (Some 0x01000500)) (Some (example_audio 4)) s'
         \<and> \<not> forwarded (example_frame 3 (Some 0x01000500)) (Some (example_audio 4)) s'"
    using g [of 3 "0x01000500"] by blast
  from h(1,2) a b c r d show ?thesis by blast
qed

section \<open>A capture limited to two frames\<close>

lemma ShouldDecode_unbounded:
  "TC_in (Config_In s) = -1 \<Longrightarrow>
   ShouldDecode f s \<longleftrightarrow> (FrameCount (Config_In s) = -1 \<or> m_FramePos s < FrameCount (Config_In s))"
  by (auto simp: ShouldDecode_def Let_def split: option.splits)

lemma new_calls_append: "calls s' = calls s @ cs \<Longrightarrow> new_calls s s' = cs"
  by (simp add: new_calls_def)

lemma frame_below_limit:
  assumes "Status (Config_Out s) = capturing" and "TC_in (Config_In s) = -1"
    and "m_FramePos s + 1 < FrameCount (Config_In s)"
  shows "\<exists>s'. VideoInputFrameArrived (Some f) (Some a) s = Inr s'
     \<and> calls s' = calls s @ (if Glue s then [video_output f (m_FramePos s),
                                             audio_output a (m_FramePos s)] else [])
     \<and> m_FramePos s' = m_FramePos s + 1
     \<and> Status (Config_Out s') = capturing
     \<and> Config_In s' = Config_In s \<and> Glue s' = Glue s \<and> m_control s' = m_control s"
proof -
  from assms have sd: "ShouldDecode f s" by (simp add: ShouldDecode_unbounded)
  show ?thesis
    using assms
    by (simp add: VideoInputFrameArrived_accepted [OF assms(1) sd] decode_frame_Some
        observe_timecode_fields)
qed

lemma frame_reaching_limit:
  assumes "Status (Config_Out s) = capturing" and "TC_in (Config_In s) = -1"
    and "m_FramePos s + 1 = FrameCount (Config_In s)" and "m_control s"
    and "FrameCount (Config_In s) \<noteq> -1"
  shows "\<exists>s'. VideoInputFrameArrived (Some f) (Some a) s = Inr s'
     \<and> calls s' = calls s @ (if Glue s then [video_output f (m_FramePos s),
                                             audio_output a (m_FramePos s)] else [])
                           @ [Control_Stop] @ (if Glue s then [CloseOutput] else [])
     \<and> m_FramePos s' = m_FramePos s + 1
     \<and> Status (Config_Out s') = finished"
proof -
  from assms have sd: "ShouldDecode f s" by (simp add: ShouldDecode_unbounded)
  let ?o = "observe_timecode f s"
  let ?s2 = "(if Glue ?o
              then ?o\<lparr>calls := calls ?o @ [video_output f (m_FramePos ?o),
                                            audio_output a (m_FramePos ?o)]\<rparr>
              else ?o)\<lparr>m_FramePos := m_FramePos ?o + 1\<rparr>"
  have lim: "FrameCount (Config_In ?o) \<noteq> -1 \<and> m_FramePos ?o + 1 \<ge> FrameCount (Config_In ?o)"
    using assms sd by (auto simp: observe_timecode_fields ShouldDecode_unbounded)
  have f2: "TC_in (Config_In ?s2) = -1" "m_control ?s2" "Status (Config_Out ?s2) = capturing"
    "Glue ?s2 = Glue s" "m_FramePos ?s2 = m_FramePos s + 1"
    "calls ?s2 = calls s @ (if Glue s then [video_output f (m_FramePos s),
                                             audio_output a (m_FramePos s)] else [])"
    using assms by (simp_all add: observe_timecode_fields)
  have v: "VideoInputFrameArrived (Some f) (Some a) s = stop ?s2"
    using lim by (simp add: VideoInputFrameArrived_accepted [OF assms(1) sd] decode_frame_Some)
  from f2(1,2) obtain s' where st: "stop ?s2 = Inr s'"
    by (simp add: stop_def)
  from stop_Inr [OF st] f2 v st show ?thesis
    by (simp only:) simp
qed

text \<open>
  C3, as the code has it. With a frame-count limit of 2, no timecode bound, the status
  \<open>capturing\<close>, the frame position at 0 and a deck control present, the first
  frame is forwarded at position 0 and the capture goes on; the second frame is forwarded
  at position 1 and, once forwarded, triggers the stop request: the deck is told to stop,
  the capture is finished (the glue is told that the output is closed) and the status is
  \<open>finished\<close>. A third notification, whatever it carries, arrives when the status is no
  longer \<open>capturing\<close>: it is not forwarded and changes nothing, so it triggers no stop
  request.
\<close>

theorem C3_frame_count_two:
  assumes "FrameCount (Config_In s) = 2" and "TC_in (Config_In s) = -1"
    and "Status (Config_Out s) = capturing" and "m_FramePos s = 0" and "m_control s"
  shows "\<exists>s1 s2.
      VideoInputFrameArrived (Some f1) (Some a1) s = Inr s1
    \<and> new_calls s s1 = (if Glue s then [video_output f1 0, audio_output a1 0] else [])
    \<and> Status (Config_Out s1) = capturing
    \<and> VideoInputFrameArrived (Some f2) (Some a2) s1 = Inr s2
    \<and> new_calls s1 s2 = (if Glue s then [video_output f2 1, audio_output a2 1] else [])
                         @ [Control_Stop] @ (if Glue s then [CloseOutput] else [])
    \<and> Status (Config_Out s2) = finished
    \<and> VideoInputFrameArrived v3 a3 s2 = Inr s2"
proof -
  from assms have "m_FramePos s + 1 < FrameCount (Config_In s)" by simp
  from frame_below_limit [OF assms(3,2) this, of f1 a1] obtain s1 where
    s1: "VideoInputFrameArrived (Some f1) (Some a1) s = Inr s1"
      "calls s1 = calls s @ (if Glue s then [video_output f1 (m_FramePos s),
                                             audio_output a1 (m_FramePos s)] else [])"
      "m_FramePos s1 = m_FramePos s + 1" "Status (Config_Out s1) = capturing"
      "Config_In s1 = Config_In s" "Glue s1 = Glue s" "m_control s1 = m_control s"
    by blast
  have p: "TC_in (Config_In s1) = -1" "m_FramePos s1 + 1 = FrameCount (Config_In s1)"
    "m_control s1" "FrameCount (Config_In s1) \<noteq> -1"
    using assms s1 by simp_all
  from frame_reaching_limit [OF s1(4) p, of f2 a2] obtain s2 where
    s2: "VideoInputFrameArrived (Some f2) (Some a2) s1 = Inr s2"
      "calls s2 = calls s1 @ (if Glue s1 then [video_output f2 (m_FramePos s1),
                                             audio_output a2 (m_FramePos s1)] else [])
                           @ [Control_Stop] @ (if Glue s1 then [CloseOutput] else [])"
      "Status (Config_Out s2) = finished"
    by blast
  have third: "VideoInputFrameArrived v3 a3 s2 = Inr s2"
    using s2(3) by (simp add: VideoInputFrameArrived_def)
  have n1: "new_calls s s1 = (if Glue s then [video_output f1 0, audio_output a1 0] else [])"
    using new_calls_append [OF s1(2)] assms(4) by simp
  have n2: "new_calls s1 s2 = (if Glue s then [video_output f2 1, audio_output a2 1] else [])
                         @ [Control_Stop] @ (if Glue s then [CloseOutput] else [])"
    using new_calls_append [OF s2(2)] s1(3,6) assms(4) by simp
  from s1(1) n1 s1(4) s2(1) n2 s2(3) third show ?thesis by blast
qed

theorem C3_frame_count_two_witness:
  "FrameCount (Config_In (example_helper (example_config 2 (-1) (-1)) capturing)) = 2
   \<and> m_control (example_helper (example_config 2 (-1) (-1)) capturing)
   \<and> (\<exists>s1 s2.
        VideoInputFrameArrived (Some (example_frame 1 None)) (Some (example_audio 2))
          (example_helper (example_config 2 (-1) (-1)) capturing) = Inr s1
      \<and> VideoInputFrameArrived (Some (example_frame 3 None)) (Some (example_audio 4)) s1 = Inr s2
      \<and> new_calls s1 s2 = [video_output (example_frame 3 None) 1, audio_output (example_audio 4) 1,
                            Control_Stop, CloseOutput]
      \<and> Status (Config_Out s2) = finished
      \<and> VideoInputFrameArrived (Some (example_frame 5 None)) (Some (example_audio 6)) s2 = Inr s2)"
proof -
  let ?s = "example_helper (example_config 2 (-1) (-1)) capturing"
  have h: "FrameCount (Config_In ?s) = 2" "TC_in (Config_In ?s) = -1"
    "Status (Config_Out ?s) = capturing" "m_FramePos ?s = 0" "m_control ?s"
    by (simp_all add: example_helper_def example_config_def)
  have g: "Glue ?s" by (simp add: example_helper_def)
  from C3_frame_count_two [OF h, of "example_frame 1 None" "example_audio 2"
      "example_frame 3 None" "example_audio 4" "Some (example_frame 5 None)" "Some (example_audio 6)"]
    h(1,5) g
  show ?thesis by (simp only: if_True) auto
qed

text \<open>
  The claim as stated has the third frame trigger the stop request. On the example the
  stop request and the \<open>finished\<close> status are there after the second frame, and the
  third frame triggers nothing.
\<close>

theorem C3_third_frame_counterexample:
  "run [Ev_VideoInputFrameArrived (Some (example_frame 1 None)) (Some (example_audio 2)),
        Ev_VideoInputFrameArrived (Some (example_frame 3 None)) (Some (example_audio 4))]
       (example_helper (example_config 2 (-1) (-1)) capturing)
     = Inr ((example_helper (example_config 2 (-1) (-1)) finished)
              \<lparr>m_FramePos := 2,
               calls := [video_output (example_frame 1 None) 0, audio_output (example_audio 2) 0,
                         video_output (example_frame 3 None) 1, audio_output (example_audio 4) 1,
                         Control_Stop, CloseOutput]\<rparr>)
   \<and> \<not> triggers_stop (Some (example_frame 5 None)) (Some (example_audio 6))
        ((example_helper (example_config 2 (-1) (-1)) finished)
              \<lparr>m_FramePos := 2,
               calls := [video_output (example_frame 1 None) 0, audio_output (example_audio 2) 0,
                         video_output (example_frame 3 None) 1, audio_output (example_audio 4) 1,
                         Control_Stop, CloseOutput]\<rparr>)
   \<and> Status (Config_Out ((example_helper (example_config 2 (-1) (-1)) finished)
              \<lparr>m_FramePos := 2,
               calls := [video_output (example_frame 1 None) 0, audio_output (example_audio 2) 0,
                         video_output (example_frame 3 None) 1, audio_output (example_audio 4) 1,
                         Control_Stop, CloseOutput]\<rparr>)) \<noteq> capturing"
  by (simp add: VideoInputFrameArrived_def ShouldDecode_def decode_frame_def observe_timecode_def
      stop_def finishCapture_def call_def set_Status_def Let_def example_helper_def
      example_config_def example_frame_def example_audio_def video_output_def audio_output_def
      triggers_stop_def new_calls_def stop_requests_def)

section \<open>Failures while setting up\<close>

lemma setupCard_Config:
  "Status (Config_Out (snd (setupCard r s))) = Status (Config_Out s)"
  "Config_In (snd (setupCard r s)) = Config_In s"
  by (simp_all add: setupCard_def Let_def call_def split: option.splits)

lemma setupCard_failed: "\<not> fst (setupCard r s) \<Longrightarrow> \<not> m_card (snd (setupCard r s))"
  by (simp add: setupCard_def Let_def split: if_splits)

lemma cleanupInput_Config:
  "Config_Out (snd (cleanupInput s)) = Config_Out s"
  "Config_In (snd (cleanupInput s)) = Config_In s"
  by (simp_all add: cleanupInput_eq)

lemma setupInput_Config:
  assumes "setupInput r s = Inr (ok, s')"
  shows "Config_Out s' = Config_Out s" and "Config_In s' = Config_In s"
  using assms
  by (auto simp: setupInput_def Let_def call_def split: if_splits option.splits)

lemma setupControl_Config:
  assumes "setupControl r s = Inr (ok, s')"
  shows "Config_Out s' = Config_Out s" and "Config_In s' = Config_In s"
proof -
  from assms obtain ok1 s1 where i: "setupInput (control_input r) s = Inr (ok1, s1)"
    by (auto simp: setupControl_def split: sum.splits)
  from assms i have "Config_Out s' = Config_Out s1 \<and> Config_In s' = Config_In s1"
    by (auto simp: setupControl_def Let_def call_def split: if_splits)
  with setupInput_Config [OF i] show "Config_Out s' = Config_Out s" and "Config_In s' = Config_In s"
    by simp_all
qed

lemma setupCard_no_card: "\<not> m_card s \<Longrightarrow> \<not> getDeckLinkCard c \<Longrightarrow> setupCard c s = (False, s)"
  by (simp add: setupCard_def)

lemma cleanupInput_pointers:
  "\<not> m_input (snd (cleanupInput s))"
  "m_card (snd (cleanupInput s)) = m_card s"
  "m_control (snd (cleanupInput s)) = m_control s"
  by (simp_all add: cleanupInput_eq)

lemma setupInput_open: "m_input s \<Longrightarrow> setupInput i s = Inr (True, s)"
  by (simp add: setupInput_def)

text \<open>With a card and no input yet, \<open>setupInput\<close> returns, and returns false exactly when
  one of its steps fails.\<close>

lemma setupInput_result:
  assumes "\<not> m_input s" and "m_card s"
  shows "\<exists>s'. setupInput i s = Inr (\<not> input_open_fails i, s')
           \<and> Config_Out s' = Config_Out s \<and> Config_In s' = Config_In s
           \<and> m_card s' \<and> m_control s' = m_control s
           \<and> m_input s' = QueryInterface_Input i"
  using assms
  by (auto simp: setupInput_def input_open_fails_def Let_def call_def
      split: option.splits)

text \<open>With a card, an open input and no deck control yet, \<open>setupControl\<close> returns, and
  returns false exactly when the deck control cannot be obtained or opened.\<close>

lemma setupControl_result:
  assumes "m_input s" and "m_card s" and "\<not> m_control s"
  shows "\<exists>s'. setupControl k s = Inr (\<not> deck_open_fails k, s')
           \<and> Config_Out s' = Config_Out s \<and> Config_In s' = Config_In s"
  using assms
  by (auto simp: setupControl_def setupInput_open deck_open_fails_def Let_def call_def)

lemma setupControl_open: "m_input s \<Longrightarrow> m_control s \<Longrightarrow> setupControl k s = Inr (True, s)"
  by (simp add: setupControl_def setupInput_open)

lemma setupControl_input_fails:
  assumes "\<not> m_input s" and "m_card s" and "input_open_fails (control_input k)"
  shows "\<exists>s'. setupControl k s = Inr (False, s') \<and> Config_Out s' = Config_Out s"
proof -
  from setupInput_result [OF assms(1,2), of "control_input k"] assms(3)
  obtain s1 where "setupInput (control_input k) s = Inr (False, s1)"
    and "Config_Out s1 = Config_Out s"
    by auto
  then show ?thesis by (simp add: setupControl_def)
qed

lemma setupControl_deck_fails:
  assumes "m_card s" and "\<not> m_control s"
    and "m_input s \<or> \<not> input_open_fails (control_input k)" and "deck_open_fails k"
  shows "\<exists>s'. setupControl k s = Inr (False, s') \<and> Config_Out s' = Config_Out s"
proof (cases "m_input s")
  case True
  from setupControl_result [OF True assms(1,2), of k] assms(4) show ?thesis by auto
next
  case False
  with assms(3) have ok: "\<not> input_open_fails (control_input k)" by simp
  from setupInput_result [OF False assms(1), of "control_input k"] ok assms(2)
  obtain s1 where i: "setupInput (control_input k) s = Inr (True, s1)"
    and c: "Config_Out s1 = Config_Out s" and p: "m_card s1" "\<not> m_control s1" "m_input s1"
    by (auto simp: input_open_fails_def)
  from setupControl_result [OF p(3) p(1) p(2), of k] assms(4)
  obtain s' where k: "setupControl k s1 = Inr (False, s')" and c': "Config_Out s' = Config_Out s1"
    by auto
  have "setupControl k s = setupControl k s1"
    using i p by (simp add: setupControl_def setupInput_open)
  with k c c' show ?thesis by simp
qed

text \<open>The start request when the input interface cannot be obtained and the second
  attempt to open the input fails.\<close>

lemma startCapture_input_fails:
  assumes "m_card s" and "\<not> QueryInterface_Input (first_input r)"
    and "input_open_fails (second_input r)"
  shows "\<exists>s'. startCapture r s = Inr s' \<and> Config_Out s' = Config_Out s"
proof -
  let ?s0 = "snd (cleanupInput s)"
  have p0: "\<not> m_input ?s0" "m_card ?s0"
    using assms(1) by (simp_all add: cleanupInput_pointers)
  from setupInput_result [OF p0, of "first_input r"] assms(2)
  obtain s1 where i1: "setupInput (first_input r) ?s0 = Inr (False, s1)"
    and c1: "Config_Out s1 = Config_Out ?s0" and p1: "\<not> m_input s1" "m_card s1"
    by (auto simp: input_open_fails_def)
  from setupInput_result [OF p1, of "second_input r"] assms(3)
  obtain s2 where i2: "setupInput (second_input r) s1 = Inr (False, s2)"
    and c2: "Config_Out s2 = Config_Out s1"
    by auto
  from i1 i2 have "startCapture r s = Inr s2"
    by (simp add: startCapture_def Let_def)
  with c1 c2 show ?thesis by (simp add: cleanupInput_Config)
qed

text \<open>The start request when the input opens at the first attempt: the state that reaches
  the choice between playing and a bounded capture.\<close>

lemma startCapture_input_ok:
  assumes "m_card s" and "\<not> input_open_fails (first_input r)"
  shows "\<exists>s2. setupInput (first_input r) (snd (cleanupInput s)) = Inr (True, s2)
           \<and> setupInput (second_input r) s2 = Inr (True, s2)
           \<and> Config_Out s2 = Config_Out s \<and> Config_In s2 = Config_In s
           \<and> m_card s2 \<and> m_input s2 \<and> m_control s2 = m_control s"
proof -
  let ?s0 = "snd (cleanupInput s)"
  have p0: "\<not> m_input ?s0" "m_card ?s0"
    using assms(1) by (simp_all add: cleanupInput_pointers)
  from setupInput_result [OF p0, of "first_input r"] assms(2)
  obtain s1 where i1: "setupInput (first_input r) ?s0 = Inr (True, s1)"
    and c1: "Config_Out s1 = Config_Out ?s0" "Config_In s1 = Config_In ?s0"
    and p1: "m_input s1" "m_card s1" "m_control s1 = m_control ?s0"
    by (auto simp: input_open_fails_def)
  from i1 c1 p1 show ?thesis
    by (simp add: setupInput_open cleanupInput_Config cleanupInput_pointers)
qed

lemma startCapture_deck_fails:
  assumes "m_card s" and "\<not> input_open_fails (first_input r)"
    and "TC_in (Config_In s) \<noteq> -1" and "\<not> m_control s"
    and "deck_open_fails (start_control r)"
  shows "\<exists>s'. startCapture r s = Inr s' \<and> Config_Out s' = Config_Out s"
proof -
  from startCapture_input_ok [OF assms(1,2)] obtain s2 where
    i: "setupInput (first_input r) (snd (cleanupInput s)) = Inr (True, s2)"
       "setupInput (second_input r) s2 = Inr (True, s2)"
    and c: "Config_Out s2 = Config_Out s" "Config_In s2 = Config_In s"
    and p: "m_card s2" "m_input s2" "m_control s2 = m_control s"
    by blast
  from p assms(4) have nc: "\<not> m_control s2" by simp
  from setupControl_result [OF p(2) p(1) nc, of "start_control r"] assms(5)
  obtain s3 where k: "setupControl (start_control r) s2 = Inr (False, s3)"
    and c3: "Config_Out s3 = Config_Out s2"
    by auto
  from i k c assms(3) have "startCapture r s = Inr s3"
    by (simp add: startCapture_def Let_def)
  with c c3 show ?thesis by simp
qed

lemma startCapture_rejected:
  assumes "m_card s" and "\<not> input_open_fails (first_input r)"
    and "TC_in (Config_In s) \<noteq> -1"
    and "m_control s \<or> \<not> deck_open_fails (start_control r)"
    and "\<not> StartCapture r"
  shows "status_after (startCapture r s) = Some finished"
proof -
  from startCapture_input_ok [OF assms(1,2)] obtain s2 where
    i: "setupInput (first_input r) (snd (cleanupInput s)) = Inr (True, s2)"
       "setupInput (second_input r) s2 = Inr (True, s2)"
    and c: "Config_Out s2 = Config_Out s" "Config_In s2 = Config_In s"
    and p: "m_card s2" "m_input s2" "m_control s2 = m_control s"
    by blast
  have "\<exists>s3. setupControl (start_control r) s2 = Inr (True, s3)"
  proof (cases "m_control s2")
    case True
    with p(2) show ?thesis by (simp add: setupControl_open)
  next
    case False
    with p assms(4) have "\<not> deck_open_fails (start_control r)" by simp
    with setupControl_result [OF p(2) p(1) False, of "start_control r"] show ?thesis by auto
  qed
  then obtain s3 where k: "setupControl (start_control r) s2 = Inr (True, s3)" by blast
  from i k c assms(3,5) show ?thesis
    by (simp add: startCapture_def Let_def status_after_def Status_set_Status)
qed

text \<open>
  C5, as the code has it. A set-up step whose hardware request fails returns false and
  leaves the capture status as it was: \<open>setupCard\<close> when no card is found,
  \<open>setupInput\<close> when a step of opening the input stream fails, \<open>setupControl\<close> when
  the input cannot be opened or the deck control cannot be obtained or opened; and
  whenever one of them returns false the status is as it was. A start request returns no
  value. It returns with the status as it was (\<open>idle\<close> when it was \<open>idle\<close>) when the
  input interface cannot be obtained from the card and the second attempt to open the
  input fails, and, in a bounded capture, when the input opens and the deck control
  cannot be obtained or opened. When the set-up succeeds and the deck rejects the
  capture-start command, the start request sets the status to \<open>finished\<close>.
\<close>

theorem C5_setup_failures:
  "(\<not> m_card s \<and> \<not> getDeckLinkCard c \<longrightarrow> setupCard c s = (False, s))
   \<and> (\<not> m_input s \<and> m_card s \<and> input_open_fails i \<longrightarrow>
        (\<exists>s'. setupInput i s = Inr (False, s') \<and> Status (Config_Out s') = Status (Config_Out s)))
   \<and> (\<not> m_input s \<and> m_card s \<and> input_open_fails (control_input k) \<longrightarrow>
        (\<exists>s'. setupControl k s = Inr (False, s') \<and> Status (Config_Out s') = Status (Config_Out s)))
   \<and> (m_card s \<and> \<not> m_control s \<and> (m_input s \<or> \<not> input_open_fails (control_input k))
        \<and> deck_open_fails k \<longrightarrow>
        (\<exists>s'. setupControl k s = Inr (False, s') \<and> Status (Config_Out s') = Status (Config_Out s)))
   \<and> (\<not> fst (setupCard c s) \<longrightarrow>
        Status (Config_Out (snd (setupCard c s))) = Status (Config_Out s)
        \<and> \<not> m_card (snd (setupCard c s)))
   \<and> (\<forall>s'. setupInput i s = Inr (False, s') \<longrightarrow> Status (Config_Out s') = Status (Config_Out s))
   \<and> (\<forall>s'. setupControl k s = Inr (False, s') \<longrightarrow> Status (Config_Out s') = Status (Config_Out s))
   \<and> (m_card s \<and> \<not> QueryInterface_Input (first_input r) \<and> input_open_fails (second_input r) \<longrightarrow>
        (\<exists>s'. startCapture r s = Inr s' \<and> Status (Config_Out s') = Status (Config_Out s)))
   \<and> (m_card s \<and> \<not> input_open_fails (first_input r) \<and> TC_in (Config_In s) \<noteq> -1
        \<and> \<not> m_control s \<and> deck_open_fails (start_control r) \<longrightarrow>
        (\<exists>s'. startCapture r s = Inr s' \<and> Status (Config_Out s') = Status (Config_Out s)))
   \<and> (m_card s \<and> \<not> input_open_fails (first_input r) \<and> TC_in (Config_In s) \<noteq> -1
        \<and> (m_control s \<or> \<not> deck_open_fails (start_control r)) \<and> \<not> StartCapture r \<longrightarrow>
        status_after (startCapture r s) = Some finished)"
proof -
  have c1: "\<not> m_card s \<and> \<not> getDeckLinkCard c \<longrightarrow> setupCard c s = (False, s)"
    by (simp add: setupCard_no_card)
  have c2: "\<not> m_input s \<and> m_card s \<and> input_open_fails i \<longrightarrow>
        (\<exists>s'. setupInput i s = Inr (False, s') \<and> Status (Config_Out s') = Status (Config_Out s))"
  proof
    assume h: "\<not> m_input s \<and> m_card s \<and> input_open_fails i"
    then have "\<not> m_input s" and "m_card s" and f: "input_open_fails i" by simp_all
    from setupInput_result [OF this(1,2), of i] f
    obtain s' where "setupInput i s = Inr (False, s')" and "Config_Out s' = Config_Out s"
      by auto
    then show "\<exists>s'. setupInput i s = Inr (False, s')
        \<and> Status (Config_Out s') = Status (Config_Out s)"
      by simp
  qed
  have c3: "\<not> m_input s \<and> m_card s \<and> input_open_fails (control_input k) \<longrightarrow>
        (\<exists>s'. setupControl k s = Inr (False, s') \<and> Status (Config_Out s') = Status (Config_Out s))"
    using setupControl_input_fails [of s k] by auto
  have c4: "m_card s \<and> \<not> m_control s \<and> (m_input s \<or> \<not> input_open_fails (control_input k))
        \<and> deck_open_fails k \<longrightarrow>
        (\<exists>s'. setupControl k s = Inr (False, s') \<and> Status (Config_Out s') = Status (Config_Out s))"
    using setupControl_deck_fails [of s k] by auto
  have c5: "\<not> fst (setupCard c s) \<longrightarrow>
        Status (Config_Out (snd (setupCard c s))) = Status (Config_Out s)
        \<and> \<not> m_card (snd (setupCard c s))"
    by (simp add: setupCard_Config setupCard_failed)
  have c6: "\<forall>s'. setupInput i s = Inr (False, s') \<longrightarrow> Status (Config_Out s') = Status (Config_Out s)"
    using setupInput_Config(1) by auto
  have c7: "\<forall>s'. setupControl k s = Inr (False, s') \<longrightarrow> Status (Config_Out s') = Status (Config_Out s)"
    using setupControl_Config(1) by auto
  have c8: "m_card s \<and> \<not> QueryInterface_Input (first_input r) \<and> input_open_fails (second_input r) \<longrightarrow>
        (\<exists>s'. startCapture r s = Inr s' \<and> Status (Config_Out s') = Status (Config_Out s))"
    using startCapture_input_fails [of s r] by auto
  have c9: "m_card s \<and> \<not> input_open_fails (first_input r) \<and> TC_in (Config_In s) \<noteq> -1
        \<and> \<not> m_control s \<and> deck_open_fails (start_control r) \<longrightarrow>
        (\<exists>s'. startCapture r s = Inr s' \<and> Status (Config_Out s') = Status (Config_Out s))"
    using startCapture_deck_fails [of s r] by auto
  have c10: "m_card s \<and> \<not> input_open_fails (first_input r) \<and> TC_in (Config_In s) \<noteq> -1
        \<and> (m_control s \<or> \<not> deck_open_fails (start_control r)) \<and> \<not> StartCapture r \<longrightarrow>
        status_after (startCapture r s) = Some finished"
    using startCapture_rejected [of s r] by blast
  from c1 c2 c3 c4 c5 c6 c7 c8 c9 c10 show ?thesis by (intro conjI)
qed

text \<open>
  The claim as stated leaves the status at \<open>idle\<close> after a rejected capture-start
  command. On a freshly constructed helper with timecode bounds, whose set-up succeeds
  and whose capture-start command is rejected, the status after the start request is
  \<open>finished\<close>.
\<close>

theorem C5_rejected_start_counterexample:
  "Status (Config_Out (CaptureHelper_new card_ok (example_config (-1) 0x01000000 0x01001000) idle_out))
     = idle
   \<and> status_after (startCapture (start_ok\<lparr>StartCapture := False\<rparr>)
        (CaptureHelper_new card_ok (example_config (-1) 0x01000000 0x01001000) idle_out))
     = Some finished
   \<and> status_after (startCapture (start_ok\<lparr>StartCapture := False\<rparr>)
        (CaptureHelper_new card_ok (example_config (-1) 0x01000000 0x01001000) idle_out))
     \<noteq> Some idle"
  by (simp add: CaptureHelper_new_def setupCard_def card_ok_def example_config_def idle_out_def
      call_def Let_def startCapture_def cleanupInput_def setupInput_def start_ok_def input_ok_def
      ntsc_mode_def setupControl_def control_ok_def set_Status_def status_after_def)

lemma fresh_helper_eq:
  "CaptureHelper_new card_ok (example_config (-1) 0x01000000 0x01001000) idle_out =
     \<lparr>m_card = True, m_input = False, m_control = False, m_width = -1, m_height = -1,
      m_timeScale = 0, m_frameDuration = 0, m_FramePos = 0, Glue = False,
      Config_In = example_config (-1) 0x01000000 0x01001000,
      Config_Out = \<lparr>Status = idle, TC_current = -1, VideoInputConnections = 3\<rparr>,
      WantTimeCode = False, calls = [Card_AddRef]\<rparr>"
  by (simp add: CaptureHelper_new_def setupCard_def card_ok_def example_config_def idle_out_def
      call_def Let_def)

lemma example_replies:
  "\<not> input_open_fails input_ok"
  "input_open_fails (input_ok\<lparr>StartStreams := False\<rparr>)"
  "\<not> QueryInterface_Input (input_ok\<lparr>QueryInterface_Input := False\<rparr>)"
  "input_open_fails (input_ok\<lparr>QueryInterface_Input := False\<rparr>)"
  "\<not> deck_open_fails control_ok"
  "deck_open_fails (control_ok\<lparr>Open := False\<rparr>)"
  by (simp_all add: input_open_fails_def deck_open_fails_def input_ok_def control_ok_def
      ntsc_mode_def)

theorem C5_setup_failures_witness:
  "Status (Config_Out (CaptureHelper_new card_ok (example_config (-1) 0x01000000 0x01001000) idle_out))
     = idle
   \<and> (\<exists>s'. setupInput (input_ok\<lparr>StartStreams := False\<rparr>)
              (CaptureHelper_new card_ok (example_config (-1) 0x01000000 0x01001000) idle_out)
            = Inr (False, s') \<and> Status (Config_Out s') = idle)
   \<and> status_after (startCapture
        (start_ok\<lparr>first_input := input_ok\<lparr>QueryInterface_Input := False\<rparr>,
                  second_input := input_ok\<lparr>QueryInterface_Input := False\<rparr>\<rparr>)
        (CaptureHelper_new card_ok (example_config (-1) 0x01000000 0x01001000) idle_out))
     = Some idle
   \<and> status_after (startCapture (start_ok\<lparr>start_control := control_ok\<lparr>Open := False\<rparr>\<rparr>)
        (CaptureHelper_new card_ok (example_config (-1) 0x01000000 0x01001000) idle_out))
     = Some idle
   \<and> status_after (startCapture (start_ok\<lparr>StartCapture := False\<rparr>)
        (CaptureHelper_new card_ok (example_config (-1) 0x01000000 0x01001000) idle_out))
     = Some finished"
proof -
  let ?s = "CaptureHelper_new card_ok (example_config (-1) 0x01000000 0x01001000) idle_out"
  let ?n = "start_ok\<lparr>first_input := input_ok\<lparr>QueryInterface_Input := False\<rparr>,
                     second_input := input_ok\<lparr>QueryInterface_Input := False\<rparr>\<rparr>"
  let ?r = "start_ok\<lparr>start_control := control_ok\<lparr>Open := False\<rparr>\<rparr>"
  let ?q = "start_ok\<lparr>StartCapture := False\<rparr>"
  have st: "Status (Config_Out ?s) = idle" and tc: "TC_in (Config_In ?s) \<noteq> -1"
    and p: "m_card ?s" "\<not> m_input ?s" "\<not> m_control ?s"
    unfolding fresh_helper_eq by (simp_all add: example_config_def)
  have rn: "first_input ?n = input_ok\<lparr>QueryInterface_Input := False\<rparr>"
    "second_input ?n = input_ok\<lparr>QueryInterface_Input := False\<rparr>"
    and rr: "first_input ?r = input_ok" "start_control ?r = control_ok\<lparr>Open := False\<rparr>"
    and rq: "first_input ?q = input_ok" "start_control ?q = control_ok" "\<not> StartCapture ?q"
    by (simp_all add: start_ok_def)
  have a: "\<exists>s'. setupInput (input_ok\<lparr>StartStreams := False\<rparr>) ?s = Inr (False, s')
              \<and> Status (Config_Out s') = idle"
    using C5_setup_failures [of ?s _ "input_ok\<lparr>StartStreams := False\<rparr>"] p example_replies st
    by auto
  have "\<exists>s'. startCapture ?n ?s = Inr s' \<and> Status (Config_Out s') = Status (Config_Out ?s)"
    using C5_setup_failures [of ?s _ _ _ ?n] p example_replies unfolding rn by blast
  with st have b: "status_after (startCapture ?n ?s) = Some idle"
    by (auto simp: status_after_def)
  have "\<exists>s'. startCapture ?r ?s = Inr s' \<and> Status (Config_Out s') = Status (Config_Out ?s)"
    using C5_setup_failures [of ?s _ _ _ ?r] p tc example_replies unfolding rr by blast
  with st have c: "status_after (startCapture ?r ?s) = Some idle"
    by (auto simp: status_after_def)
  have d: "status_after (startCapture ?q ?s) = Some finished"
    using C5_setup_failures [of ?s _ _ _ ?q] p tc example_replies rq(3) unfolding rq(1,2)
    by blast
  from st a b c d show ?thesis by (intro conjI)
qed

section \<open>Frame positions\<close>

lemma video_positions_append:
  "video_positions (xs @ ys) = video_positions xs @ video_positions ys"
  by (induction xs rule: video_positions.induct) simp_all

lemma quiet_refl: "quiet s s"
  by (simp add: quiet_def)

lemma quiet_trans: "quiet s s1 \<Longrightarrow> quiet s1 s2 \<Longrightarrow> quiet s s2"
  by (simp add: quiet_def)

lemma quiet_positions_ok: "quiet s s' \<Longrightarrow> positions_ok s \<Longrightarrow> positions_ok s'"
  by (simp add: quiet_def positions_ok_def)

lemma setupCard_quiet: "quiet s (snd (setupCard r s))"
  by (simp add: setupCard_def quiet_def Let_def call_def video_positions_append
      split: option.splits)

lemma cleanupCard_quiet: "quiet s (snd (cleanupCard s))"
  by (simp add: cleanupCard_eq quiet_def video_positions_append)

lemma cleanupInput_quiet: "quiet s (snd (cleanupInput s))"
  by (simp add: cleanupInput_eq quiet_def video_positions_append)

lemma cleanupControl_quiet: "quiet s (snd (cleanupControl s))"
  by (simp add: cleanupControl_def quiet_def call_def set_Status_def video_positions_append)

lemma finishCapture_quiet: "quiet s (snd (finishCapture s))"
  by (simp add: finishCapture_def quiet_def call_def set_Status_def video_positions_append Let_def)

lemma setupInput_quiet: "setupInput r s = Inr (ok, s') \<Longrightarrow> quiet s s'"
  by (auto simp: setupInput_def quiet_def Let_def call_def video_positions_append
      split: if_splits option.splits)

lemma setupControl_quiet:
  assumes "setupControl r s = Inr (ok, s')"
  shows "quiet s s'"
proof -
  from assms obtain ok1 s1 where i: "setupInput (control_input r) s = Inr (ok1, s1)"
    by (auto simp: setupControl_def split: sum.splits)
  from assms i have "quiet s1 s'"
    by (auto simp: setupControl_def quiet_def Let_def call_def video_positions_append
        split: if_splits)
  with setupInput_quiet [OF i] show ?thesis by (rule quiet_trans)
qed

lemma readTimeCode_quiet: "readTimeCode r s = Inr s' \<Longrightarrow> quiet s s'"
  by (auto simp: readTimeCode_def quiet_def Let_def call_def set_TC_current_def
      video_positions_append split: if_splits timecode_reply.splits)

lemma getTimeCode_quiet:
  assumes "getTimeCode c r s = Inr s'"
  shows "quiet s s'"
proof -
  from assms obtain ok s1 where k: "setupControl c s = Inr (ok, s1)"
    by (auto simp: getTimeCode_def split: sum.splits)
  from assms k have "s' = s1 \<or> readTimeCode r s1 = Inr s'"
    by (auto simp: getTimeCode_def split: if_splits)
  then have "quiet s1 s'"
    using quiet_refl readTimeCode_quiet by blast
  with setupControl_quiet [OF k] show ?thesis by (rule quiet_trans)
qed

lemma stop_quiet: "stop s = Inr s' \<Longrightarrow> quiet s s'"
  using stop_Inr [of s s']
  by (auto simp: quiet_def video_positions_append)

lemma startCapture_quiet:
  assumes "startCapture r s = Inr s'"
  shows "quiet s s'"
proof -
  let ?s0 = "snd (cleanupInput s)"
  from assms obtain ok1 s1 where i1: "setupInput (first_input r) ?s0 = Inr (ok1, s1)"
    by (auto simp: startCapture_def Let_def split: sum.splits)
  from assms i1 obtain ok2 s2 where i2: "setupInput (second_input r) s1 = Inr (ok2, s2)"
    by (auto simp: startCapture_def Let_def split: sum.splits)
  have q2: "quiet s s2"
    using cleanupInput_quiet setupInput_quiet [OF i1] setupInput_quiet [OF i2]
    by (blast intro: quiet_trans)
  show ?thesis
  proof (cases "ok2 \<and> TC_in (Config_In s2) \<noteq> -1")
    case False
    with assms i1 i2 have "quiet s2 s'"
      by (auto simp: startCapture_def Let_def quiet_def call_def set_Status_def
          video_positions_append split: if_splits)
    with q2 show ?thesis by (rule quiet_trans)
  next
    case True
    with assms i1 i2 obtain ok3 s3 where k: "setupControl (start_control r) s2 = Inr (ok3, s3)"
      by (auto simp: startCapture_def Let_def split: sum.splits)
    from assms i1 i2 True k have "quiet s3 s'"
      by (auto simp: startCapture_def Let_def quiet_def call_def set_Status_def
          video_positions_append split: if_splits)
    with q2 setupControl_quiet [OF k] show ?thesis by (blast intro: quiet_trans)
  qed
qed

lemma DeckControlEventReceived_quiet: "quiet s (DeckControlEventReceived ev s)"
  by (cases ev) (simp_all add: DeckControlEventReceived_def finishCapture_quiet quiet_refl)

lemma DeckControlStatusChanged_quiet:
  assumes "DeckControlStatusChanged fl m r s = Inr s'"
  shows "quiet s s'"
proof -
  from assms have "s' = s \<or> (\<exists>s1. readTimeCode r s = Inr s1 \<and> s' = s1\<lparr>WantTimeCode := False\<rparr>)"
    by (auto simp: DeckControlStatusChanged_def split: if_splits sum.splits)
  then show ?thesis
  proof
    assume "s' = s" then show ?thesis by (simp add: quiet_refl)
  next
    assume "\<exists>s1. readTimeCode r s = Inr s1 \<and> s' = s1\<lparr>WantTimeCode := False\<rparr>"
    then obtain s1 where "readTimeCode r s = Inr s1" and "s' = s1\<lparr>WantTimeCode := False\<rparr>"
      by blast
    with readTimeCode_quiet [of r s s1] show ?thesis by (simp add: quiet_def)
  qed
qed

lemma observe_timecode_quiet: "quiet s (observe_timecode f s)"
  by (simp add: quiet_def observe_timecode_def set_TC_current_def split: option.splits)

lemma decode_frame_Status:
  assumes "decode_frame f a s = Inr s'"
  shows "Status (Config_Out s') = Status (Config_Out s)
         \<or> Status (Config_Out s') = aborting \<or> Status (Config_Out s') = finished"
proof -
  from assms obtain ap where a: "a = Some ap"
    by (cases a) (simp_all add: decode_frame_no_audio)
  let ?s2 = "(if Glue s
                 then s\<lparr>calls := calls s @ [video_output f (m_FramePos s),
                                              audio_output ap (m_FramePos s)]\<rparr>
                 else s)\<lparr>m_FramePos := m_FramePos s + 1\<rparr>"
  from assms a have "stop ?s2 = Inr s' \<or> s' = ?s2"
    by (simp add: decode_frame_Some split: if_splits)
  then show ?thesis
  proof
    assume "stop ?s2 = Inr s'"
    from stop_Inr(5) [OF this] show ?thesis by (simp split: if_splits)
  next
    assume "s' = ?s2" then show ?thesis by simp
  qed
qed

lemma video_positions_outputs:
  "video_positions [video_output f p, audio_output a p] = [p]"
  by (simp add: video_output_def audio_output_def)

lemma frame_step:
  assumes r: "VideoInputFrameArrived v a s = Inr s'" and ok: "positions_ok s"
  shows "positions_ok s' \<and> Glue s' = Glue s
         \<and> (m_FramePos s' = m_FramePos s \<or> m_FramePos s' = m_FramePos s + 1)"
proof (cases "Status (Config_Out s) = capturing")
  case False
  with r ok show ?thesis by (simp add: VideoInputFrameArrived_def)
next
  case cap: True
  with r obtain f where v: "v = Some f"
    by (cases v) (simp_all add: VideoInputFrameArrived_def)
  show ?thesis
  proof (cases "ShouldDecode f s")
    case False
    with r cap v have "s' = observe_timecode f s"
      by (simp add: VideoInputFrameArrived_rejected)
    with ok observe_timecode_quiet [of s f] show ?thesis
      by (auto simp: quiet_def positions_ok_def)
  next
    case True
    let ?o = "observe_timecode f s"
    from r cap v True have d: "decode_frame f a ?o = Inr s'"
      by (simp add: VideoInputFrameArrived_accepted)
    from decode_frame_Inr(4) [OF d] have "\<exists>ap rest. a = Some ap \<and> calls s' = calls s @
           (if Glue s then [video_output f (m_FramePos s), audio_output ap (m_FramePos s)] else [])
           @ rest \<and> video_positions rest = []"
      by (simp only: observe_timecode_fields)
    then obtain ap rest where
      c: "calls s' = calls s @
           (if Glue s then [video_output f (m_FramePos s), audio_output ap (m_FramePos s)] else [])
           @ rest" and rest: "video_positions rest = []"
      by blast
    have p: "m_FramePos s' = m_FramePos s + 1" and g: "Glue s' = Glue s"
      using decode_frame_Inr(1,2) [OF d] by (simp_all add: observe_timecode_fields)
    have st: "Status (Config_Out s') \<noteq> idle"
      using decode_frame_Status [OF d] cap by (auto simp: observe_timecode_fields)
    from ok have nn: "0 \<le> m_FramePos s"
      and vp: "video_positions (calls s) = (if Glue s then [0..m_FramePos s - 1] else [])"
      by (simp_all add: positions_ok_def)
    have "video_positions (calls s') = (if Glue s then [0..m_FramePos s] else [])"
      using nn by (simp add: c rest vp video_positions_append video_positions_outputs upto_rec2)
    with p g st nn show ?thesis by (simp add: positions_ok_def)
  qed
qed

lemma step_quiet_or_frame:
  assumes "step ev s = Inr s'"
  shows "quiet s s' \<or> (\<exists>v a. ev = Ev_VideoInputFrameArrived v a)"
proof (cases ev)
  case (Ev_setupInput r)
  with assms show ?thesis
    by (auto simp: drop_result_def split: sum.splits dest: setupInput_quiet)
next
  case (Ev_setupControl r)
  with assms show ?thesis
    by (auto simp: drop_result_def split: sum.splits dest: setupControl_quiet)
qed (use assms in \<open>auto simp: setupCard_quiet cleanupCard_quiet cleanupInput_quiet
      cleanupControl_quiet finishCapture_quiet DeckControlEventReceived_quiet quiet_refl
      TimecodeUpdate_def VTRControlStateChanged_def
      dest: getTimeCode_quiet startCapture_quiet stop_quiet DeckControlStatusChanged_quiet\<close>)

lemma step_positions:
  assumes "step ev s = Inr s'" and "positions_ok s"
  shows "positions_ok s' \<and> Glue s' = Glue s
         \<and> (m_FramePos s' = m_FramePos s \<or> m_FramePos s' = m_FramePos s + 1)"
proof (cases "quiet s s'")
  case True
  with assms(2) show ?thesis by (auto simp: quiet_def positions_ok_def)
next
  case False
  with step_quiet_or_frame [OF assms(1)] obtain v a where "ev = Ev_VideoInputFrameArrived v a"
    by blast
  with assms show ?thesis using frame_step by simp
qed

lemma run_positions:
  "run evs s = Inr s' \<Longrightarrow> positions_ok s \<Longrightarrow> positions_ok s' \<and> Glue s' = Glue s"
proof (induction evs arbitrary: s)
  case Nil
  then show ?case by simp
next
  case (Cons ev evs)
  from Cons.prems(1) obtain s1 where s1: "step ev s = Inr s1" and r: "run evs s1 = Inr s'"
    by (auto split: sum.splits)
  from step_positions [OF s1 Cons.prems(2)] Cons.IH [OF r] show ?case by simp
qed

lemma new_positions_ok: "positions_ok ((CaptureHelper_new c cin cout)\<lparr>Glue := g\<rparr>)"
  by (simp add: CaptureHelper_new_def setupCard_def positions_ok_def Let_def call_def
      video_positions_append split: option.splits)

text \<open>
  C4. Take any run of member functions and callbacks on a helper as the constructor
  leaves it, with the output glue attached or not. The positions of the video buffers
  handed to the glue are \<open>0, 1, 2, \<dots>\<close> in this order, one per forwarded frame, up to
  the frame position reached. While the status is \<open>idle\<close> the frame position is 0, and
  a start request leaves the frame position as it is, so a capture that starts from
  \<open>idle\<close> starts at position 0. No step ever lowers the frame position: every step
  keeps it or adds one, and a frame notification that adds one hands over exactly one
  video buffer, tagged with the position before the step.
\<close>

theorem C4_frame_positions:
  assumes "run evs ((CaptureHelper_new c cin cout)\<lparr>Glue := g\<rparr>) = Inr s"
  shows "video_positions (calls s) = (if g then [0..m_FramePos s - 1] else [])
       \<and> (Status (Config_Out s) = idle \<longrightarrow>
            m_FramePos s = 0 \<and> (\<forall>r s'. startCapture r s = Inr s' \<longrightarrow> m_FramePos s' = 0))
       \<and> (\<forall>r s'. startCapture r s = Inr s' \<longrightarrow> m_FramePos s' = m_FramePos s)
       \<and> (\<forall>ev s'. step ev s = Inr s' \<longrightarrow>
            m_FramePos s' = m_FramePos s \<or> m_FramePos s' = m_FramePos s + 1)
       \<and> (\<forall>v a s'. VideoInputFrameArrived v a s = Inr s' \<and> m_FramePos s' \<noteq> m_FramePos s \<longrightarrow>
            video_positions (new_calls s s') = (if g then [m_FramePos s] else []))"
proof -
  from run_positions [OF assms new_positions_ok] have ok: "positions_ok s" and g: "Glue s = g"
    by simp_all
  have a: "video_positions (calls s) = (if g then [0..m_FramePos s - 1] else [])"
    using ok g by (simp add: positions_ok_def)
  have b: "m_FramePos s' = m_FramePos s" if "startCapture r s = Inr s'" for r s'
    using startCapture_quiet [OF that] by (simp add: quiet_def)
  have c: "Status (Config_Out s) = idle \<longrightarrow> m_FramePos s = 0"
    using ok by (simp add: positions_ok_def)
  have d: "m_FramePos s' = m_FramePos s \<or> m_FramePos s' = m_FramePos s + 1"
    if "step ev s = Inr s'" for ev s'
    using step_positions [OF that ok] by simp
  have e: "video_positions (new_calls s s') = (if g then [m_FramePos s] else [])"
    if "VideoInputFrameArrived v a s = Inr s'" and "m_FramePos s' \<noteq> m_FramePos s" for v a s'
  proof -
    from frame_step [OF that(1) ok] have ok': "positions_ok s'" and g': "Glue s' = Glue s"
      and p: "m_FramePos s' = m_FramePos s + 1"
      using that(2) by auto
    have pre: "\<exists>cs. calls s' = calls s @ cs"
    proof (cases "Status (Config_Out s) = capturing")
      case False
      with that(1) show ?thesis by (simp add: VideoInputFrameArrived_def)
    next
      case cap: True
      with that(1) obtain f where v: "v = Some f"
        by (cases v) (simp_all add: VideoInputFrameArrived_def)
      show ?thesis
      proof (cases "ShouldDecode f s")
        case False
        with that(1) cap v have "s' = observe_timecode f s"
          by (simp add: VideoInputFrameArrived_rejected)
        then show ?thesis by (simp add: observe_timecode_fields)
      next
        case True
        with that(1) cap v have "decode_frame f a (observe_timecode f s) = Inr s'"
          by (simp add: VideoInputFrameArrived_accepted)
        from decode_frame_Inr(4) [OF this] show ?thesis
          by (simp only: observe_timecode_fields) blast
      qed
    qed
    then obtain cs where cs: "calls s' = calls s @ cs" by blast
    from ok ok' have "video_positions (calls s) @ video_positions cs
        = (if Glue s then [0..m_FramePos s] else [])"
      and "video_positions (calls s) = (if Glue s then [0..m_FramePos s - 1] else [])"
      and "0 \<le> m_FramePos s"
      by (simp_all add: positions_ok_def cs video_positions_append p g')
    then have "video_positions cs = (if Glue s then [m_FramePos s] else [])"
      by (simp add: upto_rec2 split: if_splits)
    with cs g show ?thesis by (simp add: new_calls_def)
  qed
  have b': "\<forall>r s'. startCapture r s = Inr s' \<longrightarrow> m_FramePos s' = m_FramePos s"
    using b by blast
  have c': "Status (Config_Out s) = idle \<longrightarrow>
            m_FramePos s = 0 \<and> (\<forall>r s'. startCapture r s = Inr s' \<longrightarrow> m_FramePos s' = 0)"
    using c by (auto simp: b)
  have d': "\<forall>ev s'. step ev s = Inr s' \<longrightarrow>
            m_FramePos s' = m_FramePos s \<or> m_FramePos s' = m_FramePos s + 1"
    using d by blast
  have e': "\<forall>v a s'. VideoInputFrameArrived v a s = Inr s' \<and> m_FramePos s' \<noteq> m_FramePos s \<longrightarrow>
            video_positions (new_calls s s') = (if g then [m_FramePos s] else [])"
    using e by blast
  from a c' b' d' e' show ?thesis by (intro conjI)
qed


theorem C4_frame_positions_witness:
  "\<exists>s. run [Ev_startCapture start_ok,
             Ev_VideoInputFrameArrived (Some (example_frame 1 (Some 0x01000000))) (Some (example_audio 2)),
             Ev_VideoInputFrameArrived (Some (example_frame 3 (Some 0x01000500))) (Some (example_audio 4))]
          ((CaptureHelper_new card_ok (example_config (-1) 0x01000000 0x01001000) idle_out)
             \<lparr>Glue := True\<rparr>) = Inr s
      \<and> m_FramePos s = 2
      \<and> video_positions (calls s) = [0, 1]"
proof -
  let ?evs = "[Ev_startCapture start_ok,
             Ev_VideoInputFrameArrived (Some (example_frame 1 (Some 0x01000000))) (Some (example_audio 2)),
             Ev_VideoInputFrameArrived (Some (example_frame 3 (Some 0x01000500))) (Some (example_audio 4))]"
  let ?s0 = "(CaptureHelper_new card_ok (example_config (-1) 0x01000000 0x01001000) idle_out)
             \<lparr>Glue := True\<rparr>"
  have "\<exists>s. run ?evs ?s0 = Inr s \<and> m_FramePos s = 2"
    unfolding fresh_helper_eq
    by (simp add: startCapture_def cleanupInput_def setupInput_def start_ok_def input_ok_def
        ntsc_mode_def setupControl_def control_ok_def call_def Let_def set_Status_def
        VideoInputFrameArrived_def ShouldDecode_def decode_frame_def observe_timecode_def
        set_TC_current_def example_config_def example_frame_def example_audio_def)
  then obtain s where r: "run ?evs ?s0 = Inr s" and p: "m_FramePos s = 2"
    by blast
  from C4_frame_positions [OF r] p have "video_positions (calls s) = [0, 1]"
    by (simp add: upto_rec1)
  with r p show ?thesis by blast
qed

end
